theory Spec2Isabelle
  imports Main
begin

section \<open>Values, errors and checked arithmetic\<close>

text \<open>
  The contracts are Solidity 0.8.19: \<open>uint256\<close> arithmetic is checked (an overflow or an
  underflow is a Panic that reverts the whole transaction), a failed \<open>require\<close> reverts
  with its message, a custom error reverts with its name. A revert undoes every effect
  of the transaction, so an operation returns either an error or the new state; after
  \<open>Inl e\<close> the state is the one the operation started from.

  Addresses, \<open>bytes32\<close> values and \<open>uint256\<close> values are natural numbers (\<open>0\<close> is
  \<open>address(0)\<close> and \<open>bytes32(0)\<close>); \<open>bytes\<close> and \<open>string\<close> are byte lists.
\<close>

type_synonym address = nat
type_synonym bytes32 = nat
type_synonym bytes = string

datatype error =
    Panic
  | Revert string
  | UnauthorizedCaller
  | InvalidRequest
  | RequestAlreadyProcessed
  | InvalidPriceData
  | InvalidNFTContract
  | ExternalCallFailed

definition UINT256_LIMIT :: nat where
  "UINT256_LIMIT = 2 ^ 256"

definition checked_add :: "nat \<Rightarrow> nat \<Rightarrow> error + nat" where
  "checked_add a b = (if a + b < UINT256_LIMIT then Inr (a + b) else Inl Panic)"

definition checked_sub :: "nat \<Rightarrow> nat \<Rightarrow> error + nat" where
  "checked_sub a b = (if b \<le> a then Inr (a - b) else Inl Panic)"

definition checked_mul :: "nat \<Rightarrow> nat \<Rightarrow> error + nat" where
  "checked_mul a b = (if a * b < UINT256_LIMIT then Inr (a * b) else Inl Panic)"

definition require :: "bool \<Rightarrow> string \<Rightarrow> error + unit" where
  "require c msg = (if c then Inr () else Inl (Revert msg))"

text \<open>Sequencing of fallible steps: the first error ends the transaction.\<close>

definition bind_err :: "error + 'a \<Rightarrow> ('a \<Rightarrow> error + 'b) \<Rightarrow> error + 'b" where
  "bind_err m f = (case m of Inl e \<Rightarrow> Inl e | Inr x \<Rightarrow> f x)"

text \<open>
  \<open>abi.encodePacked\<close> of a \<open>k\<close>-byte unsigned value is its big-endian bytes; of a string,
  the string's bytes. \<open>keccak256\<close> is not computed here: every operation that hashes
  takes the hash function \<open>K\<close> as its first argument.
\<close>

definition uint_bytes :: "nat \<Rightarrow> nat \<Rightarrow> bytes" where
  "uint_bytes k n = map (\<lambda>i. char_of (n div 256 ^ (k - 1 - i))) [0..<k]"

definition pad32 :: "bytes \<Rightarrow> bytes" where
  "pad32 b = b @ replicate ((32 - length b mod 32) mod 32) (char_of (0::nat))"

section \<open>VerificationLibrary\<close>

definition MIN_VERIFICATION_FEE :: nat where
  "MIN_VERIFICATION_FEE = 10 ^ 15"

definition MAX_VERIFICATION_FEE :: nat where
  "MAX_VERIFICATION_FEE = 10 ^ 18"

definition MAX_PROMPT_LENGTH :: nat where
  "MAX_PROMPT_LENGTH = 2000"

definition MAX_MODEL_LENGTH :: nat where
  "MAX_MODEL_LENGTH = 50"

definition RATE_LIMIT_WINDOW :: nat where
  "RATE_LIMIT_WINDOW = 60"

definition MAX_DAILY_REQUESTS :: nat where
  "MAX_DAILY_REQUESTS = 100"

definition REQUEST_TIMEOUT :: nat where
  "REQUEST_TIMEOUT = 86400"

definition validateFee :: "nat \<Rightarrow> error + unit" where
  "validateFee fee =
     require (fee \<ge> MIN_VERIFICATION_FEE \<and> fee \<le> MAX_VERIFICATION_FEE) ''Invalid fee amount''"

definition validateVerificationInput :: "string \<Rightarrow> string \<Rightarrow> error + unit" where
  "validateVerificationInput prompt model =
     bind_err (require (length prompt > 0 \<and> length prompt \<le> MAX_PROMPT_LENGTH)
                 ''Invalid prompt length'') (\<lambda>_.
     require (length model > 0 \<and> length model \<le> MAX_MODEL_LENGTH) ''Invalid model length'')"

definition checkRateLimit :: "nat \<Rightarrow> nat \<Rightarrow> error + bool" where
  "checkRateLimit lastRequestTime currentTime =
     bind_err (checked_add lastRequestTime RATE_LIMIT_WINDOW) (\<lambda>t. Inr (currentTime \<ge> t))"

definition checkDailyLimit :: "nat \<Rightarrow> bool" where
  "checkDailyLimit dailyCount = (dailyCount < MAX_DAILY_REQUESTS)"

definition generateRequestId ::
  "(bytes \<Rightarrow> bytes32) \<Rightarrow> address \<Rightarrow> string \<Rightarrow> string \<Rightarrow> nat \<Rightarrow> nat \<Rightarrow> bytes32" where
  "generateRequestId K requester prompt model timestamp nonce =
     K (uint_bytes 20 requester @ prompt @ model @ uint_bytes 32 timestamp @ uint_bytes 32 nonce)"

definition calculateOutputHash :: "(bytes \<Rightarrow> bytes32) \<Rightarrow> string \<Rightarrow> bytes32" where
  "calculateOutputHash K output = K output"

definition isRequestExpired :: "nat \<Rightarrow> nat \<Rightarrow> error + bool" where
  "isRequestExpired requestTime currentTime =
     bind_err (checked_add requestTime REQUEST_TIMEOUT) (\<lambda>t. Inr (currentTime > t))"

definition timestampToDay :: "nat \<Rightarrow> nat \<Rightarrow> error + nat" where
  "timestampToDay timestamp deploymentTime =
     bind_err (require (timestamp \<ge> deploymentTime) ''Invalid timestamp'') (\<lambda>_.
     Inr ((timestamp - deploymentTime) div 86400))"

text \<open>
  \<open>abi.encode(prompt, model, requester, timestamp)\<close>: four head words (two offsets, the
  address, the timestamp), then each string as its length and its bytes padded to a
  multiple of 32.
\<close>

definition encodeVerificationData :: "string \<Rightarrow> string \<Rightarrow> address \<Rightarrow> nat \<Rightarrow> bytes" where
  "encodeVerificationData prompt model requester timestamp =
     uint_bytes 32 128 @ uint_bytes 32 (128 + 32 + length (pad32 prompt))
     @ uint_bytes 32 requester @ uint_bytes 32 timestamp
     @ uint_bytes 32 (length prompt) @ pad32 prompt
     @ uint_bytes 32 (length model) @ pad32 model"

section \<open>The outside world of one transaction\<close>

text \<open>
  What a transaction reads from the ledger and from the contracts that are not part of
  the repository: the block, the value sent, the Pyth price feed (\<open>None\<close> when the call
  to it reverts), whether the Switchboard call and the transfer to the treasury succeed.
\<close>

record env =
  block_timestamp :: nat
  block_number :: nat
  msg_value :: nat
  pyth_getPrice :: "(int \<times> nat) option"
  switchboard_ok :: bool
  treasury_accepts :: bool

section \<open>SolanaOracleRelayer\<close>

record AttestationRequest =
  ar_requester :: address
  ar_data :: bytes
  ar_timestamp :: nat
  ar_fulfilled :: bool
  ar_attestationId :: bytes32

definition empty_AttestationRequest :: AttestationRequest where
  "empty_AttestationRequest =
     \<lparr>ar_requester = 0, ar_data = [], ar_timestamp = 0, ar_fulfilled = False,
      ar_attestationId = 0\<rparr>"

record relayer_state =
  rl_owner :: address
  authorizedCallers :: "address \<Rightarrow> bool"
  rl_requests :: "bytes32 \<Rightarrow> AttestationRequest"
  rl_processedAttestations :: "bytes32 \<Rightarrow> bool"

definition onlyAuthorized :: "relayer_state \<Rightarrow> address \<Rightarrow> error + unit" where
  "onlyAuthorized rl sender =
     (if \<not> authorizedCallers rl sender \<and> sender \<noteq> rl_owner rl then Inl UnauthorizedCaller
      else Inr ())"

definition requestAttestation ::
  "(bytes \<Rightarrow> bytes32) \<Rightarrow> env \<Rightarrow> address \<Rightarrow> relayer_state \<Rightarrow> bytes32 \<Rightarrow> bytes
     \<Rightarrow> error + (bytes32 \<times> relayer_state)" where
  "requestAttestation K e sender rl requestId verificationData =
     bind_err (onlyAuthorized rl sender) (\<lambda>_.
     if ar_timestamp (rl_requests rl requestId) \<noteq> 0 then Inl RequestAlreadyProcessed
     else
       let attestationId =
             K (uint_bytes 32 requestId @ uint_bytes 20 sender @ verificationData
                @ uint_bytes 32 (block_timestamp e) @ uint_bytes 32 (block_number e));
           rl' = rl\<lparr>rl_requests := (rl_requests rl)(requestId :=
                       \<lparr>ar_requester = sender, ar_data = verificationData,
                        ar_timestamp = block_timestamp e, ar_fulfilled = False,
                        ar_attestationId = attestationId\<rparr>)\<rparr>
       in if \<not> switchboard_ok e then Inl ExternalCallFailed
          else Inr (attestationId, rl'))"

definition fulfillAttestation ::
  "address \<Rightarrow> relayer_state \<Rightarrow> bytes32 \<Rightarrow> bytes \<Rightarrow> bytes \<Rightarrow> error + relayer_state" where
  "fulfillAttestation sender rl requestId result pf =
     bind_err (onlyAuthorized rl sender) (\<lambda>_.
     let request = rl_requests rl requestId in
     if ar_timestamp request = 0 then Inl InvalidRequest
     else if ar_fulfilled request then Inl RequestAlreadyProcessed
     else bind_err (require (length pf > 0) ''Invalid proof'') (\<lambda>_.
       Inr (rl\<lparr>rl_requests := (rl_requests rl)(requestId := request\<lparr>ar_fulfilled := True\<rparr>),
               rl_processedAttestations :=
                 (rl_processedAttestations rl)(ar_attestationId request := True)\<rparr>)))"

definition getSOLUSDPrice :: "env \<Rightarrow> error + (int \<times> nat)" where
  "getSOLUSDPrice e =
     (case pyth_getPrice e of None \<Rightarrow> Inl ExternalCallFailed | Some pt \<Rightarrow> Inr pt)"

text \<open>
  \<open>uint256(uint64(solPrice))\<close> reinterprets the \<open>int64\<close> price as unsigned; the function
  has already reverted for a price that is not positive.
\<close>

definition calculateSOLFee :: "env \<Rightarrow> nat \<Rightarrow> error + nat" where
  "calculateSOLFee e usdFee =
     (case pyth_getPrice e of
        None \<Rightarrow> Inl ExternalCallFailed
      | Some (solPrice, _) \<Rightarrow>
          if solPrice \<le> 0 then Inl InvalidPriceData
          else bind_err (checked_mul usdFee (10 ^ 18)) (\<lambda>num.
               bind_err (checked_mul (nat (solPrice mod 2 ^ 64)) (10 ^ 10)) (\<lambda>den.
               if den = 0 then Inl Panic else Inr (num div den))))"

definition verifyAttestation :: "relayer_state \<Rightarrow> bytes32 \<Rightarrow> bool" where
  "verifyAttestation rl attestationId = rl_processedAttestations rl attestationId"

section \<open>VeriAINFTSolana: the certificate contract\<close>

record VerificationMetadata =
  md_prompt :: string
  md_model :: string
  md_outputHash :: string
  md_timestamp :: nat
  md_proofHash :: bytes32
  md_verified :: bool
  md_verifier :: address
  md_requestId :: bytes32

definition empty_VerificationMetadata :: VerificationMetadata where
  "empty_VerificationMetadata =
     \<lparr>md_prompt = [], md_model = [], md_outputHash = [], md_timestamp = 0,
      md_proofHash = 0, md_verified = False, md_verifier = 0, md_requestId = 0\<rparr>"

datatype nft_role = NFT_DEFAULT_ADMIN_ROLE | MINTER_ROLE | UPDATER_ROLE

record nft_state =
  nft_roles :: "nft_role \<Rightarrow> address \<Rightarrow> bool"
  nft_admin :: address
  tokenIdCounter :: nat
  nft_name :: string
  nft_symbol :: string
  baseTokenURI :: string
  owners :: "nat \<Rightarrow> address"
  balances :: "address \<Rightarrow> nat"
  tokenURIs :: "nat \<Rightarrow> string"
  tokenMetadata :: "nat \<Rightarrow> VerificationMetadata"
  tokensByOwner :: "address \<Rightarrow> nat list"
  tokensByModel :: "string \<Rightarrow> nat list"

text \<open>\<open>msgSender()\<close> of this contract's AccessManager returns the stored admin.\<close>

definition nft_onlyRole :: "nft_state \<Rightarrow> nft_role \<Rightarrow> error + unit" where
  "nft_onlyRole n r = require (nft_roles n r (nft_admin n)) ''Access denied''"

definition nft_exists :: "nft_state \<Rightarrow> nat \<Rightarrow> bool" where
  "nft_exists n tokenId = (owners n tokenId \<noteq> 0)"

definition validateMetadata :: "VerificationMetadata \<Rightarrow> error + unit" where
  "validateMetadata metadata =
     bind_err (require (length (md_prompt metadata) > 0) ''Empty prompt'') (\<lambda>_.
     bind_err (require (length (md_model metadata) > 0) ''Empty model'') (\<lambda>_.
     bind_err (require (length (md_outputHash metadata) > 0) ''Empty output hash'') (\<lambda>_.
     bind_err (require (md_timestamp metadata > 0) ''Invalid timestamp'') (\<lambda>_.
     require (md_requestId metadata \<noteq> 0) ''Invalid request ID''))))"

text \<open>
  \<open>_toString\<close>: the decimal digits of a number, most significant first. The two loops of
  the source (count the digits, then fill the buffer from its end) build the string
  that this recursion builds.
\<close>

function toString_digits :: "nat \<Rightarrow> string \<Rightarrow> string" where
  "toString_digits v acc =
     (if v = 0 then acc else toString_digits (v div 10) (char_of (48 + v mod 10) # acc))"
  by pat_completeness auto
termination
  by (relation "measure (\<lambda>(v, acc). v)") auto

declare toString_digits.simps [simp del]

definition toString :: "nat \<Rightarrow> string" where
  "toString v = (if v = 0 then ''0'' else toString_digits v [])"

definition generateTokenURI :: "nft_state \<Rightarrow> VerificationMetadata \<Rightarrow> string" where
  "generateTokenURI n metadata =
     baseTokenURI n @ toString (md_timestamp metadata) @ ''?model='' @ md_model metadata
     @ ''&verified='' @ (if md_verified metadata then ''true'' else ''false'')"

definition nft_mint :: "nft_state \<Rightarrow> address \<Rightarrow> nat \<Rightarrow> error + nft_state" where
  "nft_mint n to tokenId =
     bind_err (require (to \<noteq> 0) ''Invalid recipient'') (\<lambda>_.
     bind_err (require (\<not> nft_exists n tokenId) ''Token already exists'') (\<lambda>_.
     bind_err (checked_add (balances n to) 1) (\<lambda>b.
     Inr (n\<lparr>balances := (balances n)(to := b), owners := (owners n)(tokenId := to)\<rparr>))))"

definition setTokenURI :: "nft_state \<Rightarrow> nat \<Rightarrow> string \<Rightarrow> error + nft_state" where
  "setTokenURI n tokenId uri =
     bind_err (require (nft_exists n tokenId) ''Token does not exist'') (\<lambda>_.
     Inr (n\<lparr>tokenURIs := (tokenURIs n)(tokenId := uri)\<rparr>))"

definition mintVerificationNFT ::
  "nft_state \<Rightarrow> address \<Rightarrow> VerificationMetadata \<Rightarrow> error + (nat \<times> nft_state)" where
  "mintVerificationNFT n recipient metadata =
     bind_err (nft_onlyRole n MINTER_ROLE) (\<lambda>_.
     bind_err (require (recipient \<noteq> 0) ''Invalid recipient'') (\<lambda>_.
     bind_err (validateMetadata metadata) (\<lambda>_.
     let tokenId = tokenIdCounter n in
     bind_err (checked_add (tokenIdCounter n) 1) (\<lambda>c.
     bind_err (nft_mint (n\<lparr>tokenIdCounter := c\<rparr>) recipient tokenId) (\<lambda>n1.
     let n2 = n1\<lparr>tokenMetadata := (tokenMetadata n1)(tokenId := metadata)\<rparr> in
     bind_err (setTokenURI n2 tokenId (generateTokenURI n2 metadata)) (\<lambda>n3.
     Inr (tokenId,
          n3\<lparr>tokensByOwner := (tokensByOwner n3)(recipient := tokensByOwner n3 recipient @ [tokenId]),
             tokensByModel := (tokensByModel n3)(md_model metadata :=
                                 tokensByModel n3 (md_model metadata) @ [tokenId])\<rparr>)))))))"

text \<open>
  \<open>metadata.verified && (block.timestamp - metadata.timestamp) < 2592000\<close>: the
  subtraction is evaluated only when \<open>verified\<close> holds, and it is checked.
\<close>

definition isVerificationValid :: "nft_state \<Rightarrow> nat \<Rightarrow> nat \<Rightarrow> error + bool" where
  "isVerificationValid n now tokenId =
     (if \<not> nft_exists n tokenId then Inr False
      else let metadata = tokenMetadata n tokenId in
        if \<not> md_verified metadata then Inr False
        else bind_err (checked_sub now (md_timestamp metadata)) (\<lambda>age. Inr (age < 2592000)))"

definition getTokensByOwner :: "nft_state \<Rightarrow> address \<Rightarrow> nat list" where
  "getTokensByOwner n owner = tokensByOwner n owner"

section \<open>VeriAISolana: the verification registry\<close>

datatype VerificationStatus = Pending | Verified | Failed | Expired

record VerificationRequest =
  requester :: address
  prompt :: string
  model :: string
  timestamp :: nat
  status :: VerificationStatus
  outputHash :: bytes32
  attestationId :: bytes32
  feePaid :: nat
  nftMinted :: bool

definition empty_VerificationRequest :: VerificationRequest where
  "empty_VerificationRequest =
     \<lparr>requester = 0, prompt = [], model = [], timestamp = 0, status = Pending,
      outputHash = 0, attestationId = 0, feePaid = 0, nftMinted = False\<rparr>"

datatype role = DEFAULT_ADMIN_ROLE | ORACLE_ROLE | PAUSER_ROLE | FEE_MANAGER_ROLE

definition NOT_ENTERED :: nat where "NOT_ENTERED = 1"
definition ENTERED :: nat where "ENTERED = 2"

record registry_state =
  roles :: "role \<Rightarrow> address \<Rightarrow> bool"
  admin :: address
  paused :: bool
  reentrancy_status :: nat
  requestCounter :: nat
  verificationFee :: nat
  treasuryAddress :: address
  nftContract :: address
  DEPLOYMENT_TIME :: nat
  requests :: "bytes32 \<Rightarrow> VerificationRequest"
  userRequests :: "address \<Rightarrow> bytes32 list"
  requestCount :: "address \<Rightarrow> nat"
  lastRequestTime :: "address \<Rightarrow> nat"
  dailyRequestCount :: "address \<Rightarrow> nat \<Rightarrow> nat"
  totalRequests :: nat
  totalVerified :: nat
  totalFailed :: nat

text \<open>
  The registry's state. The variables that no function of the contract writes
  (\<open>_successfulVerifications\<close>, \<open>_failedVerifications\<close>, \<open>_totalFeesCollected\<close>,
  \<open>_activeOracleCount\<close>, \<open>_processedAttestations\<close>) and the oracle records kept by
  \<open>addOracle\<close> and \<open>removeOracle\<close> are left out, as is the address of the relayer: the
  registry calls the relayer of the \<open>world\<close> below.

  The whole system: the registry, deployed at \<open>registry_address\<close>, the oracle relayer it
  calls, and the certificate contract. The registry reaches the certificate contract
  through its \<open>_nftContract\<close> field; while that is \<open>address(0)\<close> the call has no
  contract to run and reverts.
\<close>

record world =
  registry :: registry_state
  registry_address :: address
  relayer :: relayer_state
  nft :: nft_state

definition msgSender :: "registry_state \<Rightarrow> address" where
  "msgSender r = admin r"

definition hasRole :: "registry_state \<Rightarrow> role \<Rightarrow> address \<Rightarrow> bool" where
  "hasRole r rl account = roles r rl account"

definition onlyRole :: "registry_state \<Rightarrow> role \<Rightarrow> error + unit" where
  "onlyRole r rl = require (hasRole r rl (msgSender r)) ''Access denied''"

definition whenNotPaused :: "registry_state \<Rightarrow> error + unit" where
  "whenNotPaused r = require (\<not> paused r) ''Contract paused''"

definition nonReentrant :: "registry_state \<Rightarrow> error + unit" where
  "nonReentrant r = require (reentrancy_status r \<noteq> ENTERED) ''ReentrancyGuard: reentrant call''"

text \<open>
  \<open>_calculateDynamicFee\<close>: only a failure of the call in the \<open>try\<close> head
  (\<open>getSOLUSDPrice\<close>) reaches the \<open>catch\<close>. The success block runs outside it: the checked
  subtraction and the second external call (\<open>calculateSOLFee\<close>) revert the transaction
  when they fail.
\<close>

definition calculateDynamicFee :: "env \<Rightarrow> registry_state \<Rightarrow> error + nat" where
  "calculateDynamicFee e r =
     (case getSOLUSDPrice e of
        Inl _ \<Rightarrow> Inr (verificationFee r)
      | Inr (solPrice, ptime) \<Rightarrow>
          bind_err (checked_sub (block_timestamp e) ptime) (\<lambda>age.
          if age > 3600 then Inr (verificationFee r)
          else let usdFeeInCents = 100 in
               bind_err (checked_mul usdFeeInCents (10 ^ 6)) (\<lambda>usdFee.
               calculateSOLFee e usdFee)))"

text \<open>
  The constructor, and the administrative operations that prepare the registry.
  \<open>ReentrancyGuard\<close>'s constructor sets the status to \<open>_NOT_ENTERED\<close>.
\<close>

definition grantRole_internal :: "registry_state \<Rightarrow> role \<Rightarrow> address \<Rightarrow> registry_state" where
  "grantRole_internal r rl account =
     (if \<not> hasRole r rl account then r\<lparr>roles := (roles r)(rl := (roles r rl)(account := True))\<rparr>
      else r)"

definition revokeRole_internal :: "registry_state \<Rightarrow> role \<Rightarrow> address \<Rightarrow> registry_state" where
  "revokeRole_internal r rl account =
     (if hasRole r rl account then r\<lparr>roles := (roles r)(rl := (roles r rl)(account := False))\<rparr>
      else r)"

definition VeriAISolana_constructor ::
  "env \<Rightarrow> nat \<Rightarrow> address \<Rightarrow> address \<Rightarrow> address \<Rightarrow> error + registry_state" where
  "VeriAISolana_constructor e initialFee treasury adm oracleRelayer =
     bind_err (require (treasury \<noteq> 0) ''Invalid treasury'') (\<lambda>_.
     bind_err (require (adm \<noteq> 0) ''Invalid admin'') (\<lambda>_.
     bind_err (require (oracleRelayer \<noteq> 0) ''Invalid oracle relayer'') (\<lambda>_.
     let r0 = \<lparr>roles = (\<lambda>_ _. False), admin = adm, paused = False,
               reentrancy_status = NOT_ENTERED, requestCounter = 0,
               verificationFee = initialFee, treasuryAddress = treasury, nftContract = 0,
               DEPLOYMENT_TIME = block_timestamp e,
               requests = (\<lambda>_. empty_VerificationRequest), userRequests = (\<lambda>_. []),
               requestCount = (\<lambda>_. 0), lastRequestTime = (\<lambda>_. 0),
               dailyRequestCount = (\<lambda>_ _. 0), totalRequests = 0, totalVerified = 0,
               totalFailed = 0\<rparr>
     in Inr (grantRole_internal (grantRole_internal (grantRole_internal r0
               DEFAULT_ADMIN_ROLE adm) ORACLE_ROLE adm) FEE_MANAGER_ROLE adm))))"

definition grantRole :: "registry_state \<Rightarrow> role \<Rightarrow> address \<Rightarrow> error + registry_state" where
  "grantRole r rl account =
     bind_err (onlyRole r DEFAULT_ADMIN_ROLE) (\<lambda>_. Inr (grantRole_internal r rl account))"

definition revokeRole :: "registry_state \<Rightarrow> role \<Rightarrow> address \<Rightarrow> error + registry_state" where
  "revokeRole r rl account =
     bind_err (onlyRole r DEFAULT_ADMIN_ROLE) (\<lambda>_. Inr (revokeRole_internal r rl account))"

definition pause :: "registry_state \<Rightarrow> error + registry_state" where
  "pause r = bind_err (onlyRole r PAUSER_ROLE) (\<lambda>_. Inr (r\<lparr>paused := True\<rparr>))"

definition unpause :: "registry_state \<Rightarrow> error + registry_state" where
  "unpause r = bind_err (onlyRole r PAUSER_ROLE) (\<lambda>_. Inr (r\<lparr>paused := False\<rparr>))"

definition setVerificationFee :: "registry_state \<Rightarrow> nat \<Rightarrow> error + registry_state" where
  "setVerificationFee r fee =
     bind_err (onlyRole r FEE_MANAGER_ROLE) (\<lambda>_.
     bind_err (validateFee fee) (\<lambda>_.
     Inr (r\<lparr>verificationFee := fee\<rparr>)))"

definition setNFTContract :: "registry_state \<Rightarrow> address \<Rightarrow> error + registry_state" where
  "setNFTContract r nftContractAddress =
     bind_err (onlyRole r DEFAULT_ADMIN_ROLE) (\<lambda>_.
     if nftContractAddress = 0 then Inl InvalidNFTContract
     else Inr (r\<lparr>nftContract := nftContractAddress\<rparr>))"

text \<open>
  The two \<open>requestVerification\<close> overloads have the same text after their modifiers and
  the check of the \<open>requester\<close> argument; \<open>requestVerification_body\<close> is that text, with
  the account the request is made for as \<open>rq\<close>: \<open>msgSender()\<close> in the caller-pays
  overload, the \<open>requester\<close> argument in the backend overload.
  \<open>uint64(block.timestamp)\<close> keeps the low 64 bits. The \<open>nonReentrant\<close> modifier
  sets the status to \<open>_ENTERED\<close> for the duration of the body, where nothing reads it,
  and back to \<open>_NOT_ENTERED\<close> at the end, which is the body's last update here.
\<close>

definition requestVerification_body ::
  "(bytes \<Rightarrow> bytes32) \<Rightarrow> env \<Rightarrow> world \<Rightarrow> address \<Rightarrow> string \<Rightarrow> string \<Rightarrow> error + (bytes32 \<times> world)" where
  "requestVerification_body K e w rq p m =
     (let r = registry w; now = block_timestamp e in
     bind_err (validateVerificationInput p m) (\<lambda>_.
     bind_err (calculateDynamicFee e r) (\<lambda>requiredFee.
     bind_err (require (msg_value e \<ge> requiredFee) ''Insufficient fee'') (\<lambda>_.
     bind_err (checkRateLimit (lastRequestTime r rq) now) (\<lambda>within.
     bind_err (require within ''Rate limit exceeded'') (\<lambda>_.
     bind_err (timestampToDay now (DEPLOYMENT_TIME r)) (\<lambda>currentDay.
     bind_err (require (checkDailyLimit (dailyRequestCount r rq currentDay))
                 ''Daily limit exceeded'') (\<lambda>_.
     let requestId = generateRequestId K rq p m now (requestCounter r);
         request = \<lparr>requester = rq, prompt = p, model = m, timestamp = now mod 2 ^ 64,
                    status = Pending, outputHash = 0, attestationId = 0,
                    feePaid = msg_value e, nftMinted = False\<rparr>
     in
     bind_err (checked_add (requestCount r rq) 1) (\<lambda>rc.
     bind_err (checked_add (dailyRequestCount r rq currentDay) 1) (\<lambda>dc.
     bind_err (checked_add (requestCounter r) 1) (\<lambda>cnt.
     bind_err (checked_add (totalRequests r) 1) (\<lambda>tot.
     let r1 = r\<lparr>requests := (requests r)(requestId := request),
                 userRequests := (userRequests r)(rq := userRequests r rq @ [requestId]),
                 requestCount := (requestCount r)(rq := rc),
                 lastRequestTime := (lastRequestTime r)(rq := now),
                 dailyRequestCount :=
                   (dailyRequestCount r)(rq := (dailyRequestCount r rq)(currentDay := dc)),
                 requestCounter := cnt,
                 totalRequests := tot\<rparr>;
         verificationData = encodeVerificationData p m rq now
     in
     bind_err (requestAttestation K e (registry_address w) (relayer w) requestId verificationData)
       (\<lambda>(attId, rl').
     let r2 = r1\<lparr>requests := (requests r1)(requestId :=
                   (requests r1 requestId)\<lparr>attestationId := attId\<rparr>)\<rparr>
     in
     bind_err (require (treasury_accepts e) ''Fee transfer failed'') (\<lambda>_.
     Inr (requestId, w\<lparr>registry := r2\<lparr>reentrancy_status := NOT_ENTERED\<rparr>,
                       relayer := rl'\<rparr>)))))))))))))))"

definition requestVerification ::
  "(bytes \<Rightarrow> bytes32) \<Rightarrow> env \<Rightarrow> world \<Rightarrow> string \<Rightarrow> string \<Rightarrow> error + (bytes32 \<times> world)" where
  "requestVerification K e w p m =
     bind_err (whenNotPaused (registry w)) (\<lambda>_.
     bind_err (nonReentrant (registry w)) (\<lambda>_.
     requestVerification_body K e w (msgSender (registry w)) p m))"

definition requestVerificationFor ::
  "(bytes \<Rightarrow> bytes32) \<Rightarrow> env \<Rightarrow> world \<Rightarrow> address \<Rightarrow> string \<Rightarrow> string
     \<Rightarrow> error + (bytes32 \<times> world)" where
  "requestVerificationFor K e w rq p m =
     bind_err (whenNotPaused (registry w)) (\<lambda>_.
     bind_err (nonReentrant (registry w)) (\<lambda>_.
     bind_err (onlyRole (registry w) ORACLE_ROLE) (\<lambda>_.
     bind_err (require (rq \<noteq> 0) ''Invalid requester'') (\<lambda>_.
     requestVerification_body K e w rq p m))))"

text \<open>
  \<open>_mintVerificationNFT\<close>: \<open>string(abi.encodePacked(outputHash))\<close> is the 32 bytes of the
  hash; the metadata's timestamp is the request's timestamp.
\<close>

definition internal_mintVerificationNFT ::
  "(bytes \<Rightarrow> bytes32) \<Rightarrow> world \<Rightarrow> address \<Rightarrow> bytes32 \<Rightarrow> bytes32 \<Rightarrow> bytes \<Rightarrow> error + world" where
  "internal_mintVerificationNFT K w recipient requestId oh pf =
     (let r = registry w;
          request = requests r requestId;
          proofHash = K pf;
          metadata = \<lparr>md_prompt = prompt request, md_model = model request,
                      md_outputHash = uint_bytes 32 oh, md_timestamp = timestamp request,
                      md_proofHash = proofHash, md_verified = True,
                      md_verifier = msgSender r, md_requestId = requestId\<rparr>
      in if nftContract r = 0 then Inl ExternalCallFailed
         else bind_err (mintVerificationNFT (nft w) recipient metadata) (\<lambda>(tokenId, n').
              Inr (w\<lparr>registry := r\<lparr>requests := (requests r)(requestId :=
                                        request\<lparr>nftMinted := True\<rparr>)\<rparr>,
                     nft := n'\<rparr>)))"

definition fulfillVerification ::
  "(bytes \<Rightarrow> bytes32) \<Rightarrow> env \<Rightarrow> world \<Rightarrow> bytes32 \<Rightarrow> string \<Rightarrow> bytes32 \<Rightarrow> bytes \<Rightarrow> error + world" where
  "fulfillVerification K e w requestId output attId pf =
     (let r = registry w in
     bind_err (onlyRole r ORACLE_ROLE) (\<lambda>_.
     let request = requests r requestId in
     bind_err (require (requester request \<noteq> 0) ''Request not found'') (\<lambda>_.
     bind_err (require (status request = Pending) ''Request already fulfilled'') (\<lambda>_.
     bind_err (require (verifyAttestation (relayer w) attId) ''Invalid attestation'') (\<lambda>_.
     bind_err (require (attestationId request = attId) ''Attestation mismatch'') (\<lambda>_.
     bind_err (isRequestExpired (timestamp request) (block_timestamp e)) (\<lambda>expired.
     bind_err (require (\<not> expired) ''Request expired'') (\<lambda>_.
     let oh = calculateOutputHash K output in
     bind_err (checked_add (totalVerified r) 1) (\<lambda>tv.
     let r1 = r\<lparr>requests := (requests r)(requestId :=
                   request\<lparr>status := Verified, outputHash := oh\<rparr>),
                 totalVerified := tv\<rparr>
     in internal_mintVerificationNFT K (w\<lparr>registry := r1\<rparr>) (requester request)
          requestId oh pf)))))))))"

definition markVerificationFailed ::
  "registry_state \<Rightarrow> bytes32 \<Rightarrow> string \<Rightarrow> error + registry_state" where
  "markVerificationFailed r requestId reason =
     bind_err (onlyRole r ORACLE_ROLE) (\<lambda>_.
     let request = requests r requestId in
     bind_err (require (requester request \<noteq> 0) ''Request not found'') (\<lambda>_.
     bind_err (require (status request = Pending) ''Request already processed'') (\<lambda>_.
     bind_err (checked_add (totalFailed r) 1) (\<lambda>tf.
     Inr (r\<lparr>requests := (requests r)(requestId := request\<lparr>status := Failed\<rparr>),
            totalFailed := tf\<rparr>)))))"

definition verifyOutput :: "(bytes \<Rightarrow> bytes32) \<Rightarrow> registry_state \<Rightarrow> bytes32 \<Rightarrow> string \<Rightarrow> bool" where
  "verifyOutput K r requestId output =
     (let request = requests r requestId in
      if status request \<noteq> Verified then False
      else let oh = calculateOutputHash K output in oh = outputHash request)"

section \<open>MultichainContractService: looking a certificate up across chains\<close>

text \<open>
  A chain selector is a string at run time. The router's state is its default chain,
  \<open>solana\<close> at construction and changed by \<open>setDefaultChain\<close>. The two per-chain
  services are arguments of the router's operations; each \<open>getNFT\<close> of a service
  returns the token's data or \<open>null\<close> and catches its own failures, so the router's
  \<open>catch\<close> is never entered.
\<close>

record MultichainNFTData =
  nd_tokenId :: string
  nd_owner :: string
  nd_prompt :: string
  nd_output :: string
  nd_model :: string
  nd_verificationId :: string
  nd_metadataURI :: "string option"
  nd_timestamp :: string
  nd_chain :: string

text \<open>
  The services as the repository has them: \<open>SolanaContractService.getNFT\<close> and
  \<open>EthereumContractService.getNFT\<close> build a record for whatever token id they are given;
  \<open>isoNow\<close> is \<open>new Date().toISOString()\<close> at the time of the call.
\<close>

definition SolanaContractService_getNFT :: "string \<Rightarrow> string \<Rightarrow> MultichainNFTData option" where
  "SolanaContractService_getNFT isoNow tokenId =
     Some \<lparr>nd_tokenId = tokenId, nd_owner = ''11111111111111111111111111111111'',
           nd_prompt = ''Sample prompt'', nd_output = ''Sample output'', nd_model = ''gpt-4'',
           nd_verificationId = ''sample-verification-id'',
           nd_metadataURI = Some (''https://api.veriai.app/metadata/'' @ tokenId),
           nd_timestamp = isoNow, nd_chain = ''solana''\<rparr>"

definition EthereumContractService_getNFT :: "string \<Rightarrow> string \<Rightarrow> MultichainNFTData option" where
  "EthereumContractService_getNFT isoNow tokenId =
     Some \<lparr>nd_tokenId = tokenId, nd_owner = ''0x0000000000000000000000000000000000000000'',
           nd_prompt = ''Sample prompt'', nd_output = ''Sample output'', nd_model = ''gpt-4'',
           nd_verificationId = ''sample-verification-id'',
           nd_metadataURI = Some (''https://api.veriai.app/metadata/'' @ tokenId),
           nd_timestamp = isoNow, nd_chain = ''ethereum''\<rparr>"

record MultichainContractService =
  defaultChain :: string

definition MultichainContractService_constructor :: MultichainContractService where
  "MultichainContractService_constructor = \<lparr>defaultChain = ''solana''\<rparr>"

definition setDefaultChain :: "MultichainContractService \<Rightarrow> string \<Rightarrow> MultichainContractService" where
  "setDefaultChain svc chain = svc\<lparr>defaultChain := chain\<rparr>"

definition getDefaultChain :: "MultichainContractService \<Rightarrow> string" where
  "getDefaultChain svc = defaultChain svc"

definition startsWith :: "string \<Rightarrow> string \<Rightarrow> bool" where
  "startsWith s p = (take (length p) s = p)"

definition detectChainFromTokenId :: "MultichainContractService \<Rightarrow> string \<Rightarrow> string" where
  "detectChainFromTokenId svc tokenId =
     (if startsWith tokenId ''sol_'' \<or> startsWith tokenId ''solana_'' then ''solana''
      else if startsWith tokenId ''eth_'' \<or> startsWith tokenId ''ethereum_'' then ''ethereum''
      else defaultChain svc)"

text \<open>\<open>chain || detect(tokenId)\<close>: an omitted or empty selector is falsy.\<close>

definition getNFT ::
  "(string \<Rightarrow> MultichainNFTData option) \<Rightarrow> (string \<Rightarrow> MultichainNFTData option)
     \<Rightarrow> MultichainContractService \<Rightarrow> string \<Rightarrow> string option \<Rightarrow> MultichainNFTData option" where
  "getNFT solanaService_getNFT ethereumService_getNFT svc tokenId chain =
     (let targetChain =
            (case chain of
               None \<Rightarrow> detectChainFromTokenId svc tokenId
             | Some c \<Rightarrow> if c \<noteq> [] then c else detectChainFromTokenId svc tokenId)
      in if targetChain = ''solana'' then solanaService_getNFT tokenId
         else if targetChain = ''ethereum'' then ethereumService_getNFT tokenId
         else (case solanaService_getNFT tokenId of
                 Some solanaResult \<Rightarrow> Some solanaResult
               | None \<Rightarrow> ethereumService_getNFT tokenId))"

text \<open>
  The lookup as the specification words it, to compare the router with: the chain is
  inferred from a chain-specific prefix of the token id; when no prefix matches, the
  inference is inconclusive and the chains are probed in a fixed order \<open>order\<close>, the
  first hit being returned, and nothing when no chain has the token.
\<close>

definition spec_infer_chain :: "string \<Rightarrow> string option" where
  "spec_infer_chain tokenId =
     (if startsWith tokenId ''sol_'' \<or> startsWith tokenId ''solana_'' then Some ''solana''
      else if startsWith tokenId ''eth_'' \<or> startsWith tokenId ''ethereum_'' then Some ''ethereum''
      else None)"

fun spec_first_hit :: "(string \<Rightarrow> MultichainNFTData option) list \<Rightarrow> string \<Rightarrow> MultichainNFTData option" where
  "spec_first_hit [] tokenId = None"
| "spec_first_hit (service # services) tokenId =
     (case service tokenId of
        Some found \<Rightarrow> Some found
      | None \<Rightarrow> spec_first_hit services tokenId)"

definition spec_get_certificate ::
  "(string \<Rightarrow> MultichainNFTData option) \<Rightarrow> (string \<Rightarrow> MultichainNFTData option)
     \<Rightarrow> (string \<Rightarrow> MultichainNFTData option) list \<Rightarrow> string \<Rightarrow> MultichainNFTData option" where
  "spec_get_certificate solanaService_getNFT ethereumService_getNFT order tokenId =
     (case spec_infer_chain tokenId of
        Some c \<Rightarrow> if c = ''solana'' then solanaService_getNFT tokenId
                  else ethereumService_getNFT tokenId
      | None \<Rightarrow> spec_first_hit order tokenId)"

section \<open>Transactions in sequence\<close>

text \<open>
  The state after a transaction is the new state, or the old one when it reverted.
  \<open>step\<close> runs one call of the registry or of the relayer; \<open>run\<close> runs a list of them.
\<close>

definition commit :: "world \<Rightarrow> error + world \<Rightarrow> world" where
  "commit w res = (case res of Inl _ \<Rightarrow> w | Inr w' \<Rightarrow> w')"

datatype call =
    RequestVerification env string string
  | RequestVerificationFor env address string string
  | FulfillVerification env bytes32 string bytes32 bytes
  | MarkVerificationFailed bytes32 string
  | FulfillAttestation address bytes32 bytes bytes

fun call_result :: "(bytes \<Rightarrow> bytes32) \<Rightarrow> world \<Rightarrow> call \<Rightarrow> error + world" where
  "call_result K w (RequestVerification e p m) = map_sum id snd (requestVerification K e w p m)"
| "call_result K w (RequestVerificationFor e rq p m) =
     map_sum id snd (requestVerificationFor K e w rq p m)"
| "call_result K w (FulfillVerification e requestId output attId pf) =
     fulfillVerification K e w requestId output attId pf"
| "call_result K w (MarkVerificationFailed requestId reason) =
     map_sum id (\<lambda>r. w\<lparr>registry := r\<rparr>) (markVerificationFailed (registry w) requestId reason)"
| "call_result K w (FulfillAttestation sender requestId result pf) =
     map_sum id (\<lambda>rl. w\<lparr>relayer := rl\<rparr>) (fulfillAttestation sender (relayer w) requestId result pf)"

definition step :: "(bytes \<Rightarrow> bytes32) \<Rightarrow> world \<Rightarrow> call \<Rightarrow> world" where
  "step K w c = commit w (call_result K w c)"

definition run :: "(bytes \<Rightarrow> bytes32) \<Rightarrow> world \<Rightarrow> call list \<Rightarrow> world" where
  "run K w cs = foldl (step K) w cs"

text \<open>The certificates bound to a request: the minted tokens whose metadata names it.\<close>

definition certificates_for :: "nft_state \<Rightarrow> bytes32 \<Rightarrow> nat list" where
  "certificates_for n requestId =
     filter (\<lambda>t. nft_exists n t \<and> md_requestId (tokenMetadata n t) = requestId)
       [0..<tokenIdCounter n]"

text \<open>
  The invariant behind "one certificate per request": the relayer holds an attestation
  request for every stored request, a \<open>Verified\<close> request has exactly one certificate,
  and every other request id has none. A submission is \<open>timely\<close> when its block time is
  not 0, so that the relayer's record of it is distinguishable from an empty one.
\<close>

definition timely :: "call \<Rightarrow> bool" where
  "timely c =
     (case c of
        RequestVerification e _ _ \<Rightarrow> block_timestamp e \<noteq> 0
      | RequestVerificationFor e _ _ _ \<Rightarrow> block_timestamp e \<noteq> 0
      | _ \<Rightarrow> True)"

definition one_certificate_per_request :: "world \<Rightarrow> bool" where
  "one_certificate_per_request w =
     (\<forall>rid.
        (requester (requests (registry w) rid) \<noteq> 0 \<longrightarrow>
           ar_timestamp (rl_requests (relayer w) rid) \<noteq> 0)
        \<and> (if status (requests (registry w) rid) = Verified
             then requester (requests (registry w) rid) \<noteq> 0
               \<and> length (certificates_for (nft w) rid) = 1
             else certificates_for (nft w) rid = []))"

section \<open>A concrete deployment\<close>

text \<open>
  A small deployment for evaluating the operations: admin \<open>1\<close>, treasury \<open>2\<close>, the
  registry at address \<open>3\<close>, the certificate contract at \<open>4\<close>, the relayer owned by \<open>9\<close>
  with the registry authorised, a static fee of \<open>1000000\<close> (the deployment script's
  value), and a stand-in for the hash function.
\<close>

definition example_hash :: "bytes \<Rightarrow> bytes32" where
  "example_hash b = Suc (length b)"

definition example_env :: "nat \<Rightarrow> nat \<Rightarrow> (int \<times> nat) option \<Rightarrow> env" where
  "example_env t v price =
     \<lparr>block_timestamp = t, block_number = 1, msg_value = v, pyth_getPrice = price,
      switchboard_ok = True, treasury_accepts = True\<rparr>"

definition example_registry :: registry_state where
  "example_registry =
     \<lparr>roles = (\<lambda>rl a. a = 1 \<and> (rl = DEFAULT_ADMIN_ROLE \<or> rl = ORACLE_ROLE \<or> rl = FEE_MANAGER_ROLE)),
      admin = 1, paused = False, reentrancy_status = NOT_ENTERED, requestCounter = 0,
      verificationFee = 1000000, treasuryAddress = 2, nftContract = 4,
      DEPLOYMENT_TIME = 1000,
      requests = (\<lambda>_. empty_VerificationRequest), userRequests = (\<lambda>_. []),
      requestCount = (\<lambda>_. 0), lastRequestTime = (\<lambda>_. 0),
      dailyRequestCount = (\<lambda>_ _. 0), totalRequests = 0, totalVerified = 0,
      totalFailed = 0\<rparr>"

definition example_relayer :: relayer_state where
  "example_relayer =
     \<lparr>rl_owner = 9, authorizedCallers = (\<lambda>a. a = 9 \<or> a = 3),
      rl_requests = (\<lambda>_. empty_AttestationRequest),
      rl_processedAttestations = (\<lambda>_. False)\<rparr>"

definition example_nft :: nft_state where
  "example_nft =
     \<lparr>nft_roles = (\<lambda>_ a. a = 1), nft_admin = 1, tokenIdCounter = 0,
      nft_name = ''VeriAI Certificate'', nft_symbol = ''VAI'',
      baseTokenURI = ''https://api.veriai.app/metadata/'',
      owners = (\<lambda>_. 0), balances = (\<lambda>_. 0), tokenURIs = (\<lambda>_. []),
      tokenMetadata = (\<lambda>_. empty_VerificationMetadata),
      tokensByOwner = (\<lambda>_. []), tokensByModel = (\<lambda>_. [])\<rparr>"

definition example_world :: world where
  "example_world =
     \<lparr>registry = example_registry, registry_address = 3, relayer = example_relayer,
      nft = example_nft\<rparr>"

text \<open>
  Requester \<open>5\<close> submits at time \<open>2000\<close> (the request id is \<open>101\<close>, the attestation id
  \<open>373\<close> under \<open>example_hash\<close>); the relayer's owner then reports the attestation.
\<close>

definition example_submitted :: world where
  "example_submitted =
     step example_hash example_world
       (RequestVerificationFor (example_env 2000 1000000 None) 5 ''Explain PoS'' ''gpt-4'')"

definition example_attested :: world where
  "example_attested =
     step example_hash example_submitted (FulfillAttestation 9 101 ''ok'' ''proof'')"

definition example_paused :: world where
  "example_paused = example_attested\<lparr>registry := (registry example_attested)\<lparr>paused := True\<rparr>\<rparr>"

definition example_verified :: world where
  "example_verified =
     step example_hash example_attested
       (FulfillVerification (example_env 88400 0 None) 101 ''Proof-of-Stake is...'' 373 ''proof'')"

text \<open>
  The same first submission made through the caller-pays entry point: the request is
  recorded for \<open>msgSender()\<close>, the admin \<open>1\<close>.
\<close>

definition example_caller_submitted :: world where
  "example_caller_submitted =
     step example_hash example_world
       (RequestVerification (example_env 2000 1000000 None) ''Explain PoS'' ''gpt-4'')"

text \<open>
  A fresh price feed: SOL at 150 USD (scaled by \<open>10\<^sup>8\<close>), reported at the time of the
  block. Two submissions under it, one paying \<open>700000\<close> and one paying \<open>2 \<cdot> 10\<^sup>1\<^sup>8\<close>.
\<close>

definition example_priced_env :: "nat \<Rightarrow> env" where
  "example_priced_env v = example_env 2000 v (Some (15000000000, 2000))"

definition example_low_fee :: world where
  "example_low_fee =
     step example_hash example_world
       (RequestVerificationFor (example_priced_env 700000) 5 ''Explain PoS'' ''gpt-4'')"

definition example_high_fee :: world where
  "example_high_fee =
     step example_hash example_world
       (RequestVerificationFor (example_priced_env 2000000000000000000) 5 ''Explain PoS'' ''gpt-4'')"

text \<open>A certificate minted by the minter directly, with the \<open>verified\<close> flag not set.\<close>

definition example_unverified_metadata :: VerificationMetadata where
  "example_unverified_metadata =
     \<lparr>md_prompt = ''Explain PoS'', md_model = ''gpt-4'', md_outputHash = ''0xabc'',
      md_timestamp = 2000, md_proofHash = 7, md_verified = False, md_verifier = 1,
      md_requestId = 55\<rparr>"

definition example_unverified_nft :: nft_state where
  "example_unverified_nft =
     (case mintVerificationNFT example_nft 5 example_unverified_metadata of
        Inl _ \<Rightarrow> example_nft
      | Inr (_, n) \<Rightarrow> n)"

section \<open>Basic facts\<close>

lemma bind_err_Inl [simp]: "bind_err (Inl e) f = Inl e"
  by (simp add: bind_err_def)

lemma bind_err_Inr [simp]: "bind_err (Inr x) f = f x"
  by (simp add: bind_err_def)

lemma require_True [simp]: "require True msg = Inr ()"
  by (simp add: require_def)

lemma require_False [simp]: "require False msg = Inl (Revert msg)"
  by (simp add: require_def)

lemma require_eq_Inr [simp]: "(require c msg = Inr u) = c"
  by (simp add: require_def)

lemma bind_err_eq_Inr: "(bind_err m f = Inr y) = (\<exists>x. m = Inr x \<and> f x = Inr y)"
  by (cases m) simp_all

lemma bind_require: "bind_err (require c msg) f = (if c then f () else Inl (Revert msg))"
  by (simp add: require_def)

lemma length_uint_bytes [simp]: "length (uint_bytes k n) = k"
  by (simp add: uint_bytes_def)

lemmas library_defs =
  validateFee_def validateVerificationInput_def checkRateLimit_def checkDailyLimit_def
  generateRequestId_def calculateOutputHash_def isRequestExpired_def timestampToDay_def
  encodeVerificationData_def pad32_def checked_add_def checked_sub_def checked_mul_def
  UINT256_LIMIT_def MIN_VERIFICATION_FEE_def MAX_VERIFICATION_FEE_def MAX_PROMPT_LENGTH_def
  MAX_MODEL_LENGTH_def RATE_LIMIT_WINDOW_def MAX_DAILY_REQUESTS_def REQUEST_TIMEOUT_def

lemmas relayer_defs =
  onlyAuthorized_def requestAttestation_def fulfillAttestation_def getSOLUSDPrice_def
  calculateSOLFee_def verifyAttestation_def

lemmas nft_defs =
  nft_onlyRole_def nft_exists_def validateMetadata_def nft_mint_def setTokenURI_def
  mintVerificationNFT_def isVerificationValid_def

lemmas registry_defs =
  msgSender_def hasRole_def onlyRole_def whenNotPaused_def nonReentrant_def
  NOT_ENTERED_def ENTERED_def calculateDynamicFee_def requestVerification_body_def
  requestVerification_def requestVerificationFor_def internal_mintVerificationNFT_def
  fulfillVerification_def markVerificationFailed_def verifyOutput_def

lemmas example_defs =
  example_hash_def example_env_def example_registry_def example_relayer_def example_nft_def
  example_world_def example_submitted_def example_attested_def
  example_verified_def step_def commit_def
  empty_VerificationRequest_def empty_AttestationRequest_def empty_VerificationMetadata_def

section \<open>What a successful call has done\<close>

lemma fulfill_char:
  "fulfillVerification K e w requestId output attId pf =
    (let r = registry w; request = requests r requestId in
     if \<not> hasRole r ORACLE_ROLE (msgSender r) then Inl (Revert ''Access denied'')
     else if requester request = 0 then Inl (Revert ''Request not found'')
     else if status request \<noteq> Pending then Inl (Revert ''Request already fulfilled'')
     else if \<not> verifyAttestation (relayer w) attId then Inl (Revert ''Invalid attestation'')
     else if attestationId request \<noteq> attId then Inl (Revert ''Attestation mismatch'')
     else if \<not> timestamp request + REQUEST_TIMEOUT < UINT256_LIMIT then Inl Panic
     else if block_timestamp e > timestamp request + REQUEST_TIMEOUT
       then Inl (Revert ''Request expired'')
     else if \<not> totalVerified r + 1 < UINT256_LIMIT then Inl Panic
     else internal_mintVerificationNFT K
            (w\<lparr>registry := r\<lparr>requests := (requests r)(requestId :=
                   request\<lparr>status := Verified, outputHash := K output\<rparr>),
                 totalVerified := totalVerified r + 1\<rparr>\<rparr>)
            (requester request) requestId (K output) pf)"
  by (simp add: fulfillVerification_def onlyRole_def Let_def bind_require isRequestExpired_def
        checked_add_def calculateOutputHash_def)

lemma nft_mint_Inr:
  "nft_mint n to t = Inr n' \<Longrightarrow>
     to \<noteq> 0 \<and> owners n t = 0 \<and>
     n' = n\<lparr>balances := (balances n)(to := balances n to + 1), owners := (owners n)(t := to)\<rparr>"
  by (auto simp: nft_mint_def bind_require nft_exists_def checked_add_def split: if_splits)

lemma mintVerificationNFT_Inr:
  assumes "mintVerificationNFT n recipient metadata = Inr (t, n')"
  shows "t = tokenIdCounter n" and "tokenIdCounter n' = tokenIdCounter n + 1"
    and "owners n' = (owners n)(t := recipient)" and "recipient \<noteq> 0"
    and "tokenMetadata n' = (tokenMetadata n)(t := metadata)"
    and "tokensByOwner n' = (tokensByOwner n)(recipient := tokensByOwner n recipient @ [t])"
    and "nft_roles n' = nft_roles n" and "nft_admin n' = nft_admin n"
  using assms
  by (auto simp: mintVerificationNFT_def nft_onlyRole_def bind_require Let_def bind_err_eq_Inr
        checked_add_def setTokenURI_def dest!: nft_mint_Inr split: if_splits)

lemma fulfillVerification_Inr:
  assumes "fulfillVerification K e w rid output attId pf = Inr w'"
  shows "hasRole (registry w) ORACLE_ROLE (msgSender (registry w))"
    and "requester (requests (registry w) rid) \<noteq> 0"
    and "status (requests (registry w) rid) = Pending"
    and "verifyAttestation (relayer w) attId"
    and "attestationId (requests (registry w) rid) = attId"
    and "block_timestamp e \<le> timestamp (requests (registry w) rid) + REQUEST_TIMEOUT"
    and "registry w' = (registry w)\<lparr>requests := (requests (registry w))(rid :=
            (requests (registry w) rid)\<lparr>status := Verified, outputHash := K output,
               nftMinted := True\<rparr>),
          totalVerified := totalVerified (registry w) + 1\<rparr>"
    and "relayer w' = relayer w"
    and "registry_address w' = registry_address w"
    and "\<exists>md. md_requestId md = rid \<and> md_verified md
            \<and> md_timestamp md = timestamp (requests (registry w) rid)
            \<and> mintVerificationNFT (nft w) (requester (requests (registry w) rid)) md
                 = Inr (tokenIdCounter (nft w), nft w')"
proof -
  note a = assms [unfolded fulfill_char Let_def]
  show "hasRole (registry w) ORACLE_ROLE (msgSender (registry w))"
    and "requester (requests (registry w) rid) \<noteq> 0"
    and "status (requests (registry w) rid) = Pending"
    and "verifyAttestation (relayer w) attId"
    and "attestationId (requests (registry w) rid) = attId"
    and "block_timestamp e \<le> timestamp (requests (registry w) rid) + REQUEST_TIMEOUT"
    using a by (auto split: if_splits)
  have m: "internal_mintVerificationNFT K
            (w\<lparr>registry := (registry w)\<lparr>requests := (requests (registry w))(rid :=
                   (requests (registry w) rid)\<lparr>status := Verified, outputHash := K output\<rparr>),
                 totalVerified := totalVerified (registry w) + 1\<rparr>\<rparr>)
            (requester (requests (registry w) rid)) rid (K output) pf = Inr w'"
    using a by (auto split: if_splits)
  from m show "registry w' = (registry w)\<lparr>requests := (requests (registry w))(rid :=
            (requests (registry w) rid)\<lparr>status := Verified, outputHash := K output,
               nftMinted := True\<rparr>),
          totalVerified := totalVerified (registry w) + 1\<rparr>"
    and "relayer w' = relayer w"
    and "registry_address w' = registry_address w"
    by (auto simp: internal_mintVerificationNFT_def Let_def bind_err_eq_Inr split: if_splits)
  from m show "\<exists>md. md_requestId md = rid \<and> md_verified md
            \<and> md_timestamp md = timestamp (requests (registry w) rid)
            \<and> mintVerificationNFT (nft w) (requester (requests (registry w) rid)) md
                 = Inr (tokenIdCounter (nft w), nft w')"
    apply (simp add: internal_mintVerificationNFT_def Let_def bind_err_eq_Inr split: if_splits)
    apply (elim exE conjE)
    subgoal for t n'
      using mintVerificationNFT_Inr(1)
      by (auto simp: split_def intro!: exI)
    done
qed

lemma requestAttestation_Inr:
  assumes "requestAttestation K e sender rl rid d = Inr (a, rl')"
  shows "ar_timestamp (rl_requests rl rid) = 0"
    and "rl_processedAttestations rl' = rl_processedAttestations rl"
    and "\<And>x. x \<noteq> rid \<Longrightarrow> rl_requests rl' x = rl_requests rl x"
    and "ar_timestamp (rl_requests rl' rid) = block_timestamp e"
    and "rl_owner rl' = rl_owner rl" and "authorizedCallers rl' = authorizedCallers rl"
  using assms
  by (auto simp: requestAttestation_def Let_def bind_err_eq_Inr split: if_splits)

lemma requestVerification_body_Inr:
  assumes "requestVerification_body K e w rq p m = Inr (rid, w')"
  shows "ar_timestamp (rl_requests (relayer w) rid) = 0"
    and "nft w' = nft w" and "registry_address w' = registry_address w"
    and "roles (registry w') = roles (registry w)" and "admin (registry w') = admin (registry w)"
    and "paused (registry w') = paused (registry w)"
    and "reentrancy_status (registry w') = NOT_ENTERED"
    and "\<And>x. x \<noteq> rid \<Longrightarrow> requests (registry w') x = requests (registry w) x"
    and "\<And>x. x \<noteq> rid \<Longrightarrow> rl_requests (relayer w') x = rl_requests (relayer w) x"
    and "rl_processedAttestations (relayer w') = rl_processedAttestations (relayer w)"
    and "lastRequestTime (registry w') rq = block_timestamp e"
    and "status (requests (registry w') rid) = Pending"
    and "requester (requests (registry w') rid) = rq"
    and "rid = generateRequestId K rq p m (block_timestamp e) (requestCounter (registry w))"
  using assms
  by (auto simp: requestVerification_body_def Let_def bind_err_eq_Inr split_def
           dest: requestAttestation_Inr split: if_splits)

lemma markVerificationFailed_Inr:
  assumes "markVerificationFailed r rid reason = Inr r'"
  shows "status (requests r rid) = Pending"
    and "r' = r\<lparr>requests := (requests r)(rid := (requests r rid)\<lparr>status := Failed\<rparr>),
                 totalFailed := totalFailed r + 1\<rparr>"
  using assms
  by (auto simp: markVerificationFailed_def Let_def bind_require checked_add_def bind_err_eq_Inr
           split: if_splits)

lemma fulfillAttestation_Inr:
  assumes "fulfillAttestation sender rl rid result pf = Inr rl'"
  shows "ar_timestamp (rl_requests rl' x) = ar_timestamp (rl_requests rl x)"
  using assms
  by (auto simp: fulfillAttestation_def Let_def bind_require bind_err_eq_Inr split: if_splits)

lemma certificates_for_mint:
  assumes "mintVerificationNFT n recipient md = Inr (t, n')"
  shows "certificates_for n' x =
           certificates_for n x @ (if md_requestId md = x then [tokenIdCounter n] else [])"
proof -
  note f = mintVerificationNFT_Inr [OF assms]
  have old: "filter (\<lambda>t. nft_exists n' t \<and> md_requestId (tokenMetadata n' t) = x)
               [0..<tokenIdCounter n]
             = filter (\<lambda>t. nft_exists n t \<and> md_requestId (tokenMetadata n t) = x)
               [0..<tokenIdCounter n]"
    by (rule filter_cong) (auto simp: f nft_exists_def)
  show ?thesis
    using old by (simp add: certificates_for_def f nft_exists_def)
qed

lemma fulfillVerification_certificates:
  assumes "fulfillVerification K e w rid output attId pf = Inr w'"
  shows "certificates_for (nft w') x =
           certificates_for (nft w) x @ (if rid = x then [tokenIdCounter (nft w)] else [])"
    and "tokenIdCounter (nft w') = tokenIdCounter (nft w) + 1"
proof -
  from fulfillVerification_Inr(10) [OF assms] obtain md where
    md: "md_requestId md = rid"
    and m: "mintVerificationNFT (nft w) (requester (requests (registry w) rid)) md
              = Inr (tokenIdCounter (nft w), nft w')"
    by blast
  show "certificates_for (nft w') x =
           certificates_for (nft w) x @ (if rid = x then [tokenIdCounter (nft w)] else [])"
    using certificates_for_mint [OF m, of x] md by simp
  show "tokenIdCounter (nft w') = tokenIdCounter (nft w) + 1"
    using mintVerificationNFT_Inr(2) [OF m] by simp
qed

section \<open>A settled request stays settled\<close>

text \<open>
  Once a request has left \<open>Pending\<close> and the relayer holds its attestation request, no
  call changes the request, and no call adds a certificate for it: a new submission
  that derived the same id would be refused by the relayer, which reverts the
  submission as a whole.
\<close>

lemma step_keeps_settled:
  assumes s: "status (requests (registry w) rid) \<noteq> Pending"
      and t: "ar_timestamp (rl_requests (relayer w) rid) \<noteq> 0"
  shows "requests (registry (step K w c)) rid = requests (registry w) rid
       \<and> ar_timestamp (rl_requests (relayer (step K w c)) rid) \<noteq> 0
       \<and> roles (registry (step K w c)) = roles (registry w)
       \<and> admin (registry (step K w c)) = admin (registry w)
       \<and> certificates_for (nft (step K w c)) rid = certificates_for (nft w) rid"
proof (cases "call_result K w c")
  case (Inl err)
  then show ?thesis using t by (simp add: step_def commit_def)
next
  case (Inr w')
  then have st: "step K w c = w'" by (simp add: step_def commit_def)
  show ?thesis
  proof (cases c)
    case (RequestVerification e p m)
    with Inr obtain x where b: "requestVerification_body K e w (msgSender (registry w)) p m = Inr (x, w')"
      by (cases "requestVerification K e w p m")
         (auto simp: requestVerification_def bind_err_eq_Inr)
    have "x \<noteq> rid" using requestVerification_body_Inr(1) [OF b] t by auto
    then show ?thesis
      using requestVerification_body_Inr [OF b] t by (simp add: st)
  next
    case (RequestVerificationFor e rq p m)
    with Inr obtain x where b: "requestVerification_body K e w rq p m = Inr (x, w')"
      by (cases "requestVerificationFor K e w rq p m")
         (auto simp: requestVerificationFor_def bind_err_eq_Inr)
    have "x \<noteq> rid" using requestVerification_body_Inr(1) [OF b] t by auto
    then show ?thesis
      using requestVerification_body_Inr [OF b] t by (simp add: st)
  next
    case (FulfillVerification e x out attId bs)
    with Inr have f: "fulfillVerification K e w x out attId bs = Inr w'" by simp
    have "x \<noteq> rid" using fulfillVerification_Inr(3) [OF f] s by auto
    then show ?thesis
      using fulfillVerification_Inr(7,8) [OF f] fulfillVerification_certificates(1) [OF f, of rid] t
      by (simp add: st)
  next
    case (MarkVerificationFailed x reason)
    with Inr obtain r' where f: "markVerificationFailed (registry w) x reason = Inr r'"
      and w': "w' = w\<lparr>registry := r'\<rparr>"
      by (cases "markVerificationFailed (registry w) x reason") auto
    have "x \<noteq> rid" using markVerificationFailed_Inr(1) [OF f] s by auto
    then show ?thesis
      using markVerificationFailed_Inr(2) [OF f] t by (simp add: st w')
  next
    case (FulfillAttestation sender x result bs)
    with Inr obtain rl' where f: "fulfillAttestation sender (relayer w) x result bs = Inr rl'"
      and w': "w' = w\<lparr>relayer := rl'\<rparr>"
      by (cases "fulfillAttestation sender (relayer w) x result bs") auto
    show ?thesis
      using fulfillAttestation_Inr [OF f, of rid] t by (simp add: st w')
  qed
qed

lemma run_keeps_settled:
  assumes "status (requests (registry w) rid) \<noteq> Pending"
      and "ar_timestamp (rl_requests (relayer w) rid) \<noteq> 0"
  shows "requests (registry (run K w cs)) rid = requests (registry w) rid
       \<and> ar_timestamp (rl_requests (relayer (run K w cs)) rid) \<noteq> 0
       \<and> roles (registry (run K w cs)) = roles (registry w)
       \<and> admin (registry (run K w cs)) = admin (registry w)
       \<and> certificates_for (nft (run K w cs)) rid = certificates_for (nft w) rid"
  using assms
proof (induction cs arbitrary: w)
  case Nil
  then show ?case by (simp add: run_def)
next
  case (Cons c cs)
  note k = step_keeps_settled [OF Cons.prems, of K c]
  have s': "status (requests (registry (step K w c)) rid) \<noteq> Pending"
    using k Cons.prems by simp
  have t': "ar_timestamp (rl_requests (relayer (step K w c)) rid) \<noteq> 0"
    using k by simp
  have r: "run K w (c # cs) = run K (step K w c) cs" by (simp add: run_def)
  show ?case
    using Cons.IH [OF s' t'] k by (simp add: r)
qed

section \<open>The concrete deployment, evaluated\<close>

lemma example_submit:
  "requestVerificationFor example_hash (example_env 2000 1000000 None) example_world 5
     ''Explain PoS'' ''gpt-4'' = Inr (101, example_submitted)"
  by (simp add: library_defs relayer_defs registry_defs example_defs Let_def)

lemma example_attest:
  "fulfillAttestation 9 (relayer example_submitted) 101 ''ok'' ''proof''
     = Inr (relayer example_attested)"
  by (simp add: library_defs relayer_defs registry_defs example_defs Let_def)

lemma example_fulfill:
  "fulfillVerification example_hash (example_env 88400 0 None) example_attested 101
     ''Proof-of-Stake is...'' 373 ''proof'' = Inr example_verified"
  by (simp add: library_defs relayer_defs nft_defs registry_defs example_defs Let_def)

lemma example_attested_held:
  "ar_timestamp (rl_requests (relayer example_attested) 101) \<noteq> 0"
  by (simp add: library_defs relayer_defs registry_defs example_defs Let_def)

lemma example_attested_no_certificate:
  "certificates_for (nft example_attested) 101 = []"
  by (simp add: certificates_for_def library_defs relayer_defs registry_defs example_defs Let_def)

section \<open>One certificate per request\<close>

lemma one_certificateD:
  assumes "one_certificate_per_request w"
  shows "requester (requests (registry w) rid) \<noteq> 0 \<Longrightarrow>
           ar_timestamp (rl_requests (relayer w) rid) \<noteq> 0"
    and "status (requests (registry w) rid) = Verified \<Longrightarrow>
           requester (requests (registry w) rid) \<noteq> 0
           \<and> length (certificates_for (nft w) rid) = 1"
    and "status (requests (registry w) rid) \<noteq> Verified \<Longrightarrow>
           certificates_for (nft w) rid = []"
proof -
  from assms have a: "(requester (requests (registry w) rid) \<noteq> 0 \<longrightarrow>
           ar_timestamp (rl_requests (relayer w) rid) \<noteq> 0)
        \<and> (if status (requests (registry w) rid) = Verified
             then requester (requests (registry w) rid) \<noteq> 0
               \<and> length (certificates_for (nft w) rid) = 1
             else certificates_for (nft w) rid = [])"
    unfolding one_certificate_per_request_def by (rule spec)
  show "requester (requests (registry w) rid) \<noteq> 0 \<Longrightarrow>
           ar_timestamp (rl_requests (relayer w) rid) \<noteq> 0"
    using a by blast
  show "status (requests (registry w) rid) = Verified \<Longrightarrow>
           requester (requests (registry w) rid) \<noteq> 0
           \<and> length (certificates_for (nft w) rid) = 1"
    using a by (simp split: if_splits)
  show "status (requests (registry w) rid) \<noteq> Verified \<Longrightarrow>
           certificates_for (nft w) rid = []"
    using a by (simp split: if_splits)
qed

lemma one_certificateI:
  assumes "\<And>rid. requester (requests (registry w) rid) \<noteq> 0 \<Longrightarrow>
             ar_timestamp (rl_requests (relayer w) rid) \<noteq> 0"
      and "\<And>rid. status (requests (registry w) rid) = Verified \<Longrightarrow>
             requester (requests (registry w) rid) \<noteq> 0
             \<and> length (certificates_for (nft w) rid) = 1"
      and "\<And>rid. status (requests (registry w) rid) \<noteq> Verified \<Longrightarrow>
             certificates_for (nft w) rid = []"
  shows "one_certificate_per_request w"
  unfolding one_certificate_per_request_def
proof (intro allI conjI impI)
  fix rid
  assume "requester (requests (registry w) rid) \<noteq> 0"
  then show "ar_timestamp (rl_requests (relayer w) rid) \<noteq> 0" by (rule assms(1))
next
  fix rid
  show "if status (requests (registry w) rid) = Verified
        then requester (requests (registry w) rid) \<noteq> 0
          \<and> length (certificates_for (nft w) rid) = 1
        else certificates_for (nft w) rid = []"
    using assms(2) [of rid] assms(3) [of rid] by (cases "status (requests (registry w) rid) = Verified") simp_all
qed


lemma body_keeps_one_certificate:
  assumes inv: "one_certificate_per_request w"
      and b: "requestVerification_body K e w rq p m = Inr (x, w')"
      and t: "block_timestamp e \<noteq> 0"
  shows "one_certificate_per_request w'"
proof (rule one_certificateI)
  note f = requestVerification_body_Inr [OF b]
  note d = one_certificateD [OF inv]
  have r0: "requester (requests (registry w) x) = 0"
    using d(1) [of x] f(1) by auto
  have nv: "status (requests (registry w) x) \<noteq> Verified"
    using d(2) [of x] r0 by auto
  have c0: "certificates_for (nft w) x = []"
    using d(3) [OF nv] .
  have tx: "ar_timestamp (rl_requests (relayer w') x) = block_timestamp e"
    using b
    by (auto simp: requestVerification_body_def Let_def bind_err_eq_Inr split_def
          dest: requestAttestation_Inr(4) split: if_splits)
  fix rid
  show "requester (requests (registry w') rid) \<noteq> 0 \<Longrightarrow>
          ar_timestamp (rl_requests (relayer w') rid) \<noteq> 0"
    using tx t f(8) [of rid] f(9) [of rid] d(1) [of rid] by (cases "rid = x") simp_all
  show "status (requests (registry w') rid) = Verified \<Longrightarrow>
          requester (requests (registry w') rid) \<noteq> 0
          \<and> length (certificates_for (nft w') rid) = 1"
    using f(12) f(8) [of rid] d(2) [of rid] by (cases "rid = x") (simp_all add: f(2))
  show "status (requests (registry w') rid) \<noteq> Verified \<Longrightarrow>
          certificates_for (nft w') rid = []"
    using c0 f(8) [of rid] d(3) [of rid] by (cases "rid = x") (simp_all add: f(2))
qed

lemma fulfill_keeps_one_certificate:
  assumes inv: "one_certificate_per_request w"
      and f: "fulfillVerification K e w x out attId pf = Inr w'"
  shows "one_certificate_per_request w'"
proof (rule one_certificateI)
  note g = fulfillVerification_Inr [OF f]
  note d = one_certificateD [OF inv]
  have c0: "certificates_for (nft w) x = []"
    using d(3) [of x] g(3) by simp
  fix rid
  note c = fulfillVerification_certificates(1) [OF f, of rid]
  show "requester (requests (registry w') rid) \<noteq> 0 \<Longrightarrow>
          ar_timestamp (rl_requests (relayer w') rid) \<noteq> 0"
    using d(1) [of rid] by (cases "rid = x") (simp_all add: g(7,8))
  show "status (requests (registry w') rid) = Verified \<Longrightarrow>
          requester (requests (registry w') rid) \<noteq> 0
          \<and> length (certificates_for (nft w') rid) = 1"
    using d(2) [of rid] c c0 g(2) by (cases "rid = x") (simp_all add: g(7))
  show "status (requests (registry w') rid) \<noteq> Verified \<Longrightarrow>
          certificates_for (nft w') rid = []"
    using d(3) [of rid] c by (cases "rid = x") (simp_all add: g(7))
qed

lemma mark_failed_keeps_one_certificate:
  assumes inv: "one_certificate_per_request w"
      and f: "markVerificationFailed (registry w) x reason = Inr r'"
  shows "one_certificate_per_request (w\<lparr>registry := r'\<rparr>)"
proof (rule one_certificateI)
  note g = markVerificationFailed_Inr [OF f]
  note d = one_certificateD [OF inv]
  have c0: "certificates_for (nft w) x = []"
    using d(3) [of x] g(1) by simp
  fix rid
  show "requester (requests (registry (w\<lparr>registry := r'\<rparr>)) rid) \<noteq> 0 \<Longrightarrow>
          ar_timestamp (rl_requests (relayer (w\<lparr>registry := r'\<rparr>)) rid) \<noteq> 0"
    using d(1) [of rid] by (cases "rid = x") (simp_all add: g(2))
  show "status (requests (registry (w\<lparr>registry := r'\<rparr>)) rid) = Verified \<Longrightarrow>
          requester (requests (registry (w\<lparr>registry := r'\<rparr>)) rid) \<noteq> 0
          \<and> length (certificates_for (nft (w\<lparr>registry := r'\<rparr>)) rid) = 1"
    using d(2) [of rid] by (cases "rid = x") (simp_all add: g(2))
  show "status (requests (registry (w\<lparr>registry := r'\<rparr>)) rid) \<noteq> Verified \<Longrightarrow>
          certificates_for (nft (w\<lparr>registry := r'\<rparr>)) rid = []"
    using d(3) [of rid] c0 by (cases "rid = x") (simp_all add: g(2))
qed

lemma attest_keeps_one_certificate:
  assumes inv: "one_certificate_per_request w"
      and f: "fulfillAttestation sender (relayer w) x result pf = Inr rl'"
  shows "one_certificate_per_request (w\<lparr>relayer := rl'\<rparr>)"
proof (rule one_certificateI)
  note d = one_certificateD [OF inv]
  fix rid
  show "requester (requests (registry (w\<lparr>relayer := rl'\<rparr>)) rid) \<noteq> 0 \<Longrightarrow>
          ar_timestamp (rl_requests (relayer (w\<lparr>relayer := rl'\<rparr>)) rid) \<noteq> 0"
    using d(1) [of rid] fulfillAttestation_Inr [OF f, of rid] by simp
  show "status (requests (registry (w\<lparr>relayer := rl'\<rparr>)) rid) = Verified \<Longrightarrow>
          requester (requests (registry (w\<lparr>relayer := rl'\<rparr>)) rid) \<noteq> 0
          \<and> length (certificates_for (nft (w\<lparr>relayer := rl'\<rparr>)) rid) = 1"
    using d(2) [of rid] by simp
  show "status (requests (registry (w\<lparr>relayer := rl'\<rparr>)) rid) \<noteq> Verified \<Longrightarrow>
          certificates_for (nft (w\<lparr>relayer := rl'\<rparr>)) rid = []"
    using d(3) [of rid] by simp
qed

lemma step_keeps_one_certificate:
  assumes inv: "one_certificate_per_request w" and t: "timely c"
  shows "one_certificate_per_request (step K w c)"
proof (cases "call_result K w c")
  case (Inl err)
  then show ?thesis using inv by (simp add: step_def commit_def)
next
  case (Inr w')
  then have st: "step K w c = w'" by (simp add: step_def commit_def)
  show ?thesis
    unfolding st
  proof (cases c)
    case (RequestVerification e p m)
    with Inr obtain x where b: "requestVerification_body K e w (msgSender (registry w)) p m = Inr (x, w')"
      by (cases "requestVerification K e w p m")
         (auto simp: requestVerification_def bind_err_eq_Inr)
    have "block_timestamp e \<noteq> 0" using t RequestVerification by (simp add: timely_def)
    then show "one_certificate_per_request w'"
      by (rule body_keeps_one_certificate [OF inv b])
  next
    case (RequestVerificationFor e rq p m)
    with Inr obtain x where b: "requestVerification_body K e w rq p m = Inr (x, w')"
      by (cases "requestVerificationFor K e w rq p m")
         (auto simp: requestVerificationFor_def bind_err_eq_Inr)
    have "block_timestamp e \<noteq> 0" using t RequestVerificationFor by (simp add: timely_def)
    then show "one_certificate_per_request w'"
      by (rule body_keeps_one_certificate [OF inv b])
  next
    case (FulfillVerification e x out attId bs)
    with Inr have f: "fulfillVerification K e w x out attId bs = Inr w'" by simp
    show "one_certificate_per_request w'"
      by (rule fulfill_keeps_one_certificate [OF inv f])
  next
    case (MarkVerificationFailed x reason)
    with Inr obtain r' where f: "markVerificationFailed (registry w) x reason = Inr r'"
      and w': "w' = w\<lparr>registry := r'\<rparr>"
      by (cases "markVerificationFailed (registry w) x reason") auto
    show "one_certificate_per_request w'"
      unfolding w' by (rule mark_failed_keeps_one_certificate [OF inv f])
  next
    case (FulfillAttestation sender x result bs)
    with Inr obtain rl' where f: "fulfillAttestation sender (relayer w) x result bs = Inr rl'"
      and w': "w' = w\<lparr>relayer := rl'\<rparr>"
      by (cases "fulfillAttestation sender (relayer w) x result bs") auto
    show "one_certificate_per_request w'"
      unfolding w' by (rule attest_keeps_one_certificate [OF inv f])
  qed
qed

lemma run_keeps_one_certificate:
  assumes "one_certificate_per_request w" and "list_all timely cs"
  shows "one_certificate_per_request (run K w cs)"
  using assms
proof (induction cs arbitrary: w)
  case Nil
  then show ?case by (simp add: run_def)
next
  case (Cons c cs)
  have "one_certificate_per_request (step K w c)"
    using step_keeps_one_certificate Cons.prems by simp
  then have "one_certificate_per_request (run K (step K w c) cs)"
    using Cons.IH Cons.prems by simp
  then show ?case by (simp add: run_def)
qed

lemma one_certificate_count:
  assumes "one_certificate_per_request w"
  shows "length (certificates_for (nft w) rid)
           = (if status (requests (registry w) rid) = Verified then 1 else 0)"
  using one_certificateD(2,3) [OF assms, of rid] by simp

lemma fresh_one_certificate:
  assumes "tokenIdCounter (nft w) = 0"
      and "\<And>x. requester (requests (registry w) x) = 0"
      and "\<And>x. status (requests (registry w) x) = Pending"
  shows "one_certificate_per_request w"
  by (rule one_certificateI) (simp_all add: assms certificates_for_def)

lemma example_run:
  "run example_hash example_world
     [RequestVerificationFor (example_env 2000 1000000 None) 5 ''Explain PoS'' ''gpt-4'',
      FulfillAttestation 9 101 ''ok'' ''proof'',
      FulfillVerification (example_env 88400 0 None) 101 ''Proof-of-Stake is...'' 373 ''proof'']
   = example_verified"
  by (simp add: run_def example_submitted_def example_attested_def example_verified_def)

text \<open>
  The registry of the concrete deployment is what the constructor and \<open>setNFTContract\<close>
  produce; its paused variant is reached by granting the pauser role, pausing, and
  revoking the role.
\<close>

lemma example_registry_deployed:
  "bind_err (VeriAISolana_constructor (example_env 1000 0 None) 1000000 2 1 8)
     (\<lambda>r. setNFTContract r 4) = Inr example_registry"
proof -
  have r: "(\<lambda>_ _. False)
             (DEFAULT_ADMIN_ROLE := (\<lambda>_. False)(Suc 0 := True),
              ORACLE_ROLE := (\<lambda>_. False)(Suc 0 := True),
              FEE_MANAGER_ROLE := (\<lambda>_. False)(Suc 0 := True))
           = (\<lambda>rl a. a = Suc 0 \<and> (rl = DEFAULT_ADMIN_ROLE \<or> rl = ORACLE_ROLE \<or> rl = FEE_MANAGER_ROLE))"
    by (auto simp: fun_eq_iff)
  show ?thesis
    by (simp add: VeriAISolana_constructor_def setNFTContract_def grantRole_internal_def
          hasRole_def onlyRole_def msgSender_def example_env_def example_registry_def r)
qed

lemma example_paused_reached:
  "bind_err (grantRole (registry example_attested) PAUSER_ROLE 1) (\<lambda>r1.
   bind_err (pause r1) (\<lambda>r2. revokeRole r2 PAUSER_ROLE 1))
     = Inr (registry example_paused)"
proof -
  have ro: "roles (registry example_attested)
            = (\<lambda>rl a. a = 1 \<and> (rl = DEFAULT_ADMIN_ROLE \<or> rl = ORACLE_ROLE \<or> rl = FEE_MANAGER_ROLE))"
    and ad: "admin (registry example_attested) = 1"
    by (simp_all add: library_defs relayer_defs registry_defs example_defs Let_def)
  have idm: "(\<lambda>rl a. a = Suc 0 \<and> (rl = DEFAULT_ADMIN_ROLE \<or> rl = ORACLE_ROLE \<or> rl = FEE_MANAGER_ROLE))
                (PAUSER_ROLE := (\<lambda>a. False)(Suc 0 := False))
              = roles (registry example_attested)"
    by (auto simp: ro fun_eq_iff)
  have eq: "r\<lparr>paused := True, roles := roles r\<rparr> = r\<lparr>paused := True\<rparr>" for r :: registry_state
    by (cases r) simp
  show ?thesis
    by (simp add: grantRole_def pause_def revokeRole_def grantRole_internal_def
          revokeRole_internal_def onlyRole_def hasRole_def msgSender_def ad ro
          example_paused_def)
       (simp add: idm eq)
qed

section \<open>The pause flag and the oracle's calls\<close>

lemma internal_mint_pause_flag:
  "internal_mintVerificationNFT K (w\<lparr>registry := (registry w)\<lparr>paused := b\<rparr>\<rparr>) rc rid oh pf
     = map_sum id (\<lambda>w'. w'\<lparr>registry := (registry w')\<lparr>paused := b\<rparr>\<rparr>)
         (internal_mintVerificationNFT K w rc rid oh pf)"
proof (cases "mintVerificationNFT (nft w) rc
        \<lparr>md_prompt = prompt (requests (registry w) rid), md_model = model (requests (registry w) rid),
         md_outputHash = uint_bytes 32 oh, md_timestamp = timestamp (requests (registry w) rid),
         md_proofHash = K pf, md_verified = True,
         md_verifier = msgSender (registry w), md_requestId = rid\<rparr>")
  case (Inl a)
  then show ?thesis
    by (simp add: internal_mintVerificationNFT_def Let_def msgSender_def)
next
  case (Inr b)
  then show ?thesis
    by (cases b) (simp add: internal_mintVerificationNFT_def Let_def msgSender_def)
qed


lemma fulfillVerification_pause_flag:
  "fulfillVerification K e (w\<lparr>registry := (registry w)\<lparr>paused := b\<rparr>\<rparr>) rid out attId pf
     = map_sum id (\<lambda>w'. w'\<lparr>registry := (registry w')\<lparr>paused := b\<rparr>\<rparr>)
         (fulfillVerification K e w rid out attId pf)"
proof -
  have sw: "r\<lparr>paused := b, requests := rs, totalVerified := tv\<rparr>
            = r\<lparr>requests := rs, totalVerified := tv, paused := b\<rparr>"
    for r :: registry_state and rs tv
    by (cases r) simp
  have i: "internal_mintVerificationNFT K
             (w\<lparr>registry := (registry w)\<lparr>paused := b, requests := rs, totalVerified := tv\<rparr>\<rparr>)
             rc rid oh pf
           = map_sum id (\<lambda>w'. w'\<lparr>registry := (registry w')\<lparr>paused := b\<rparr>\<rparr>)
               (internal_mintVerificationNFT K
                  (w\<lparr>registry := (registry w)\<lparr>requests := rs, totalVerified := tv\<rparr>\<rparr>)
                  rc rid oh pf)" for rs tv rc oh
    using internal_mint_pause_flag
            [where K = K and b = b and rc = rc and rid = rid and oh = oh and pf = pf
               and w = "w\<lparr>registry := (registry w)\<lparr>requests := rs, totalVerified := tv\<rparr>\<rparr>"]
    by (simp add: sw)
  show ?thesis
    by (simp add: fulfill_char Let_def hasRole_def msgSender_def i)
qed

lemma markVerificationFailed_pause_flag:
  "markVerificationFailed (r\<lparr>paused := b\<rparr>) rid reason
     = map_sum id (\<lambda>r'. r'\<lparr>paused := b\<rparr>) (markVerificationFailed r rid reason)"
  by (simp add: markVerificationFailed_def onlyRole_def hasRole_def msgSender_def Let_def
        bind_require checked_add_def)

lemma example_mark_failed:
  "\<exists>r'. markVerificationFailed (registry example_attested) 101 ''no answer'' = Inr r'
             \<and> status (requests r' 101) = Failed"
  by (simp add: library_defs relayer_defs registry_defs example_defs Let_def)

section \<open>Admission of a submission\<close>

lemma requestVerification_body_passed:
  assumes "requestVerification_body K e w rq p m = Inr (rid, w')"
  shows "validateVerificationInput p m = Inr ()"
    and "\<exists>fee. calculateDynamicFee e (registry w) = Inr fee \<and> fee \<le> msg_value e"
    and "lastRequestTime (registry w) rq + RATE_LIMIT_WINDOW \<le> block_timestamp e"
  using assms
  by (auto simp: requestVerification_body_def Let_def bind_err_eq_Inr split_def
        checkRateLimit_def checked_add_def split: if_splits)

lemma requestVerification_Inr:
  assumes "requestVerification K e w p m = Inr (rid, w')"
  shows "\<not> paused (registry w)" and "reentrancy_status (registry w) \<noteq> ENTERED"
    and "requestVerification_body K e w (msgSender (registry w)) p m = Inr (rid, w')"
  using assms
  by (auto simp: requestVerification_def whenNotPaused_def nonReentrant_def bind_require
        split: if_splits)

lemma requestVerificationFor_Inr:
  assumes "requestVerificationFor K e w rq p m = Inr (rid, w')"
  shows "\<not> paused (registry w)" and "reentrancy_status (registry w) \<noteq> ENTERED"
    and "hasRole (registry w) ORACLE_ROLE (msgSender (registry w))" and "rq \<noteq> 0"
    and "requestVerification_body K e w rq p m = Inr (rid, w')"
  using assms
  by (auto simp: requestVerificationFor_def whenNotPaused_def nonReentrant_def onlyRole_def
        bind_require split: if_splits)

lemma body_within_window:
  assumes "block_timestamp e < lastRequestTime (registry w) rq + RATE_LIMIT_WINDOW"
  shows "\<exists>err. requestVerification_body K e w rq p m = Inl err"
proof (cases "requestVerification_body K e w rq p m")
  case (Inl a)
  then show ?thesis by simp
next
  case (Inr b)
  then show ?thesis
    using requestVerification_body_passed(3) [of K e w rq p m "fst b" "snd b"] assms by simp
qed

lemma body_rate_limit_error:
  assumes "block_timestamp e < lastRequestTime (registry w) rq + RATE_LIMIT_WINDOW"
      and "lastRequestTime (registry w) rq + RATE_LIMIT_WINDOW < UINT256_LIMIT"
      and "validateVerificationInput p m = Inr ()"
      and "calculateDynamicFee e (registry w) = Inr fee" and "fee \<le> msg_value e"
  shows "requestVerification_body K e w rq p m = Inl (Revert ''Rate limit exceeded'')"
  using assms
  by (simp add: requestVerification_body_def Let_def checkRateLimit_def checked_add_def)

lemma body_fee_error:
  assumes "validateVerificationInput p m = Inr ()"
      and "calculateDynamicFee e (registry w) = Inr fee" and "msg_value e < fee"
  shows "requestVerification_body K e w rq p m = Inl (Revert ''Insufficient fee'')"
  using assms
  by (simp add: requestVerification_body_def Let_def)

lemma entry_fails_if_body_fails:
  assumes "requestVerification_body K e w rq p m = Inl err"
  shows "\<exists>err'. requestVerificationFor K e w rq p m = Inl err'"
    and "rq = msgSender (registry w) \<Longrightarrow> \<exists>err'. requestVerification K e w p m = Inl err'"
  using assms
  by (auto simp: requestVerificationFor_def requestVerification_def bind_require
        whenNotPaused_def nonReentrant_def onlyRole_def)

lemma step_failed:
  "call_result K w c = Inl err \<Longrightarrow> step K w c = w"
  by (simp add: step_def commit_def)

lemma example_submitted_fee:
  "validateVerificationInput ''Again'' ''gpt-4'' = Inr ()"
  "calculateDynamicFee (example_env 2030 1000000 None) (registry example_submitted) = Inr 1000000"
  by (simp_all add: library_defs relayer_defs registry_defs example_defs Let_def)

lemma example_low_fee_submit:
  "requestVerificationFor example_hash (example_priced_env 700000) example_world 5
     ''Explain PoS'' ''gpt-4'' = Inr (101, example_low_fee)"
  by (simp add: library_defs relayer_defs registry_defs example_defs Let_def
        example_priced_env_def example_low_fee_def)

lemma example_high_fee_submit:
  "requestVerificationFor example_hash (example_priced_env 2000000000000000000) example_world 5
     ''Explain PoS'' ''gpt-4'' = Inr (101, example_high_fee)"
  by (simp add: library_defs relayer_defs registry_defs example_defs Let_def
        example_priced_env_def example_high_fee_def)

lemma example_caller_submit:
  "requestVerification example_hash (example_env 2000 1000000 None) example_world
     ''Explain PoS'' ''gpt-4'' = Inr (101, example_caller_submitted)"
  by (simp add: library_defs relayer_defs registry_defs example_defs Let_def
        example_caller_submitted_def)

lemma example_caller_submitted_fee:
  "calculateDynamicFee (example_env 2030 1000000 None) (registry example_caller_submitted)
     = Inr 1000000"
  by (simp add: library_defs relayer_defs registry_defs example_defs Let_def
        example_caller_submitted_def)

lemma calculateSOLFee_msg_value:
  "calculateSOLFee (e\<lparr>msg_value := v\<rparr>) = calculateSOLFee e"
  by (simp add: fun_eq_iff calculateSOLFee_def)

lemma calculateDynamicFee_msg_value:
  "calculateDynamicFee (e\<lparr>msg_value := v\<rparr>) r = calculateDynamicFee e r"
  unfolding calculateDynamicFee_def getSOLUSDPrice_def calculateSOLFee_msg_value
  by (cases "pyth_getPrice e") auto

lemma requestAttestation_msg_value:
  "requestAttestation K (e\<lparr>msg_value := v\<rparr>) sender rl rid d = requestAttestation K e sender rl rid d"
  by (simp add: requestAttestation_def)

lemma body_accepts_larger_fee:
  assumes "requestVerification_body K e w rq p m = Inr (rid, w')" and "msg_value e \<le> v"
  shows "\<exists>w''. requestVerification_body K (e\<lparr>msg_value := v\<rparr>) w rq p m = Inr (rid, w'')
           \<and> feePaid (requests (registry w'') rid) = v"
  using assms
  by (auto simp: requestVerification_body_def Let_def bind_err_eq_Inr split_def
        calculateDynamicFee_msg_value requestAttestation_msg_value split: if_splits)

text \<open>
  The fee the registry asks for: the static fee when the price query fails or the price
  is older than an hour; a revert when the price is fresh but not positive, or dated
  after the block.
\<close>

lemma calculateDynamicFee_cases:
  "pyth_getPrice e = None \<Longrightarrow> calculateDynamicFee e r = Inr (verificationFee r)"
  "pyth_getPrice e = Some (price, t) \<Longrightarrow> t + 3600 < block_timestamp e \<Longrightarrow>
     calculateDynamicFee e r = Inr (verificationFee r)"
  "pyth_getPrice e = Some (price, t) \<Longrightarrow> t \<le> block_timestamp e \<Longrightarrow>
     block_timestamp e \<le> t + 3600 \<Longrightarrow> price \<le> 0 \<Longrightarrow>
     calculateDynamicFee e r = Inl InvalidPriceData"
  "pyth_getPrice e = Some (price, t) \<Longrightarrow> block_timestamp e < t \<Longrightarrow>
     calculateDynamicFee e r = Inl Panic"
  by (auto simp: calculateDynamicFee_def getSOLUSDPrice_def calculateSOLFee_def checked_sub_def
        checked_mul_def UINT256_LIMIT_def)

lemma example_unverified_mint:
  "mintVerificationNFT example_nft 5 example_unverified_metadata = Inr (0, example_unverified_nft)"
  by (simp add: example_unverified_nft_def example_unverified_metadata_def example_nft_def
        nft_defs library_defs Let_def)

text \<open>
  With a supported default chain the router never reaches its probing branch: without
  a selector it asks exactly one service.
\<close>

lemma getNFT_without_selector:
  assumes "defaultChain svc = ''solana'' \<or> defaultChain svc = ''ethereum''"
  shows "getNFT solanaService ethereumService svc tokenId None =
           (if detectChainFromTokenId svc tokenId = ''solana''
            then solanaService tokenId else ethereumService tokenId)"
  using assms
  by (auto simp: getNFT_def detectChainFromTokenId_def Let_def)

section \<open>Claims\<close>

subsection \<open>Fulfilment happens once\<close>

text \<open>
  C1. For every request id, a successful \<open>fulfillVerification\<close> is exactly-once. The
  call that succeeds sets the status to \<open>Verified\<close> and mints exactly one certificate
  bound to the request id: the token counter grows by one and the certificates of the
  request are those before plus the new token. After it, whatever calls of the registry
  and the relayer follow (\<open>cs\<close>), every further \<open>fulfillVerification\<close> on the same id
  fails with "Request already fulfilled", and the certificates of the request stay the
  same: no second certificate is minted. (The request is one the relayer holds an
  attestation request for, as every request submitted at a block time other than 0
  is.) And in a system that starts with no request and no certificate, after any
  calls with timely submissions, a request id has exactly one certificate when its
  status is \<open>Verified\<close> and none otherwise.
\<close>

theorem fulfill_exactly_once:
  "(fulfillVerification K e w rid out attId pf = Inr w'
      \<and> ar_timestamp (rl_requests (relayer w) rid) \<noteq> 0 \<longrightarrow>
        status (requests (registry w') rid) = Verified
        \<and> nftMinted (requests (registry w') rid)
        \<and> tokenIdCounter (nft w') = tokenIdCounter (nft w) + 1
        \<and> certificates_for (nft w') rid
            = certificates_for (nft w) rid @ [tokenIdCounter (nft w)]
        \<and> (\<forall>cs e' out' attId' pf'.
              fulfillVerification K e' (run K w' cs) rid out' attId' pf'
                = Inl (Revert ''Request already fulfilled'')
              \<and> certificates_for (nft (run K w' cs)) rid = certificates_for (nft w') rid))
   \<and> (tokenIdCounter (nft w0) = 0
        \<and> (\<forall>x. requester (requests (registry w0) x) = 0
                \<and> status (requests (registry w0) x) = Pending)
        \<and> list_all timely cs0 \<longrightarrow>
        length (certificates_for (nft (run K w0 cs0)) rid)
          = (if status (requests (registry (run K w0 cs0)) rid) = Verified then 1 else 0))"
proof (intro conjI impI)
  assume h: "fulfillVerification K e w rid out attId pf = Inr w'
      \<and> ar_timestamp (rl_requests (relayer w) rid) \<noteq> 0"
  then have ok: "fulfillVerification K e w rid out attId pf = Inr w'"
    and held: "ar_timestamp (rl_requests (relayer w) rid) \<noteq> 0"
    by simp_all
  note f = fulfillVerification_Inr [OF ok]
  have st: "status (requests (registry w') rid) = Verified"
    and mi: "nftMinted (requests (registry w') rid)"
    and rq: "requester (requests (registry w') rid) \<noteq> 0"
    and ro: "hasRole (registry w') ORACLE_ROLE (msgSender (registry w'))"
    using f(1,2) by (simp_all add: f(7) hasRole_def msgSender_def)
  have np: "status (requests (registry w') rid) \<noteq> Pending" using st by simp
  have held': "ar_timestamp (rl_requests (relayer w') rid) \<noteq> 0" using held by (simp add: f(8))
  show "status (requests (registry w') rid) = Verified" by (rule st)
  show "nftMinted (requests (registry w') rid)" by (rule mi)
  show "tokenIdCounter (nft w') = tokenIdCounter (nft w) + 1"
    by (rule fulfillVerification_certificates(2) [OF ok])
  show "certificates_for (nft w') rid = certificates_for (nft w) rid @ [tokenIdCounter (nft w)]"
    using fulfillVerification_certificates(1) [OF ok, of rid] by simp
  show "\<forall>cs e' out' attId' pf'.
          fulfillVerification K e' (run K w' cs) rid out' attId' pf'
            = Inl (Revert ''Request already fulfilled'')
          \<and> certificates_for (nft (run K w' cs)) rid = certificates_for (nft w') rid"
  proof (intro allI)
    fix cs e' out' attId' pf'
    note k = run_keeps_settled [OF np held', where K = K and cs = cs]
    have "hasRole (registry (run K w' cs)) ORACLE_ROLE (msgSender (registry (run K w' cs)))"
      using ro k by (simp add: hasRole_def msgSender_def)
    moreover have "requester (requests (registry (run K w' cs)) rid) \<noteq> 0"
      using rq k by simp
    moreover have "status (requests (registry (run K w' cs)) rid) \<noteq> Pending"
      using np k by simp
    ultimately show "fulfillVerification K e' (run K w' cs) rid out' attId' pf'
            = Inl (Revert ''Request already fulfilled'')
          \<and> certificates_for (nft (run K w' cs)) rid = certificates_for (nft w') rid"
      using k by (simp add: fulfill_char Let_def)
  qed
next
  assume h: "tokenIdCounter (nft w0) = 0
        \<and> (\<forall>x. requester (requests (registry w0) x) = 0
                \<and> status (requests (registry w0) x) = Pending)
        \<and> list_all timely cs0"
  then have "one_certificate_per_request w0"
    by (intro fresh_one_certificate) simp_all
  then have "one_certificate_per_request (run K w0 cs0)"
    using h by (intro run_keeps_one_certificate) simp_all
  then show "length (certificates_for (nft (run K w0 cs0)) rid)
          = (if status (requests (registry (run K w0 cs0)) rid) = Verified then 1 else 0)"
    by (rule one_certificate_count)
qed

theorem fulfill_exactly_once_witness:
  "fulfillVerification example_hash (example_env 88400 0 None) example_attested 101
     ''Proof-of-Stake is...'' 373 ''proof'' = Inr example_verified
   \<and> ar_timestamp (rl_requests (relayer example_attested) 101) \<noteq> 0
   \<and> status (requests (registry example_verified) 101) = Verified
   \<and> certificates_for (nft example_verified) 101 = [0]
   \<and> fulfillVerification example_hash (example_env 88401 0 None)
        (run example_hash example_verified [MarkVerificationFailed 101 ''late''])
        101 ''Proof-of-Stake is...'' 373 ''proof'' = Inl (Revert ''Request already fulfilled'')
   \<and> certificates_for
        (nft (run example_hash example_verified [MarkVerificationFailed 101 ''late''])) 101 = [0]
   \<and> length (certificates_for (nft
        (run example_hash example_world
           [RequestVerificationFor (example_env 2000 1000000 None) 5 ''Explain PoS'' ''gpt-4'',
            FulfillAttestation 9 101 ''ok'' ''proof'',
            FulfillVerification (example_env 88400 0 None) 101 ''Proof-of-Stake is...'' 373
              ''proof''])) 101) = 1"
proof -
  note t = fulfill_exactly_once [where K = example_hash and e = "example_env 88400 0 None"
      and w = example_attested and rid = 101 and out = "''Proof-of-Stake is...''"
      and attId = 373 and pf = "''proof''" and w' = example_verified
      and ?w0.0 = example_world
      and ?cs0.0 = "[RequestVerificationFor (example_env 2000 1000000 None) 5 ''Explain PoS'' ''gpt-4'',
            FulfillAttestation 9 101 ''ok'' ''proof'',
            FulfillVerification (example_env 88400 0 None) 101 ''Proof-of-Stake is...'' 373
              ''proof'']"]
  note a = t [THEN conjunct1, THEN mp, OF conjI, OF example_fulfill example_attested_held]
  have c0: "tokenIdCounter (nft example_attested) = 0"
    by (simp add: library_defs relayer_defs registry_defs example_defs Let_def)
  have fresh: "tokenIdCounter (nft example_world) = 0
        \<and> (\<forall>x. requester (requests (registry example_world) x) = 0
                \<and> status (requests (registry example_world) x) = Pending)
        \<and> list_all timely
            [RequestVerificationFor (example_env 2000 1000000 None) 5 ''Explain PoS'' ''gpt-4'',
             FulfillAttestation 9 101 ''ok'' ''proof'',
             FulfillVerification (example_env 88400 0 None) 101 ''Proof-of-Stake is...'' 373
               ''proof'']"
    by (simp add: example_world_def example_registry_def example_nft_def
          empty_VerificationRequest_def timely_def example_env_def)
  note b = t [THEN conjunct2, THEN mp, OF fresh]
  have v: "status (requests (registry example_verified) 101) = Verified"
    using a by simp
  have l: "length (certificates_for (nft
        (run example_hash example_world
           [RequestVerificationFor (example_env 2000 1000000 None) 5 ''Explain PoS'' ''gpt-4'',
            FulfillAttestation 9 101 ''ok'' ''proof'',
            FulfillVerification (example_env 88400 0 None) 101 ''Proof-of-Stake is...'' 373
              ''proof''])) 101) = 1"
    using b v by (simp add: example_run)
  show ?thesis
    using a l example_fulfill example_attested_held example_attested_no_certificate c0
    by simp
qed

subsection \<open>Re-checking an output\<close>

text \<open>
  C5. For every request id and every output string, \<open>verifyOutput\<close> returns true if and
  only if the stored request has status \<open>Verified\<close> and the hash of the supplied output
  equals the stored output hash. So it is false for every status other than \<open>Verified\<close>
  and for every output whose hash differs from the stored one; after a fulfilment with
  output \<open>out\<close> it is true exactly for the outputs that hash as \<open>out\<close> does. It is a view:
  it returns a truth value and no state.
\<close>

theorem verifyOutput_iff:
  "(verifyOutput K r rid out \<longleftrightarrow>
      status (requests r rid) = Verified
      \<and> calculateOutputHash K out = outputHash (requests r rid))
   \<and> (fulfillVerification K e w rid out attId pf = Inr w' \<longrightarrow>
        (\<forall>out'. verifyOutput K (registry w') rid out' \<longleftrightarrow>
                  calculateOutputHash K out' = calculateOutputHash K out))"
proof -
  have a: "verifyOutput K r rid out \<longleftrightarrow>
      status (requests r rid) = Verified
      \<and> calculateOutputHash K out = outputHash (requests r rid)" for r out
    by (simp add: verifyOutput_def Let_def)
  have b: "verifyOutput K (registry w') rid out' \<longleftrightarrow>
             calculateOutputHash K out' = calculateOutputHash K out"
    if "fulfillVerification K e w rid out attId pf = Inr w'" for out'
    using fulfillVerification_Inr(7) [OF that]
    by (simp add: a calculateOutputHash_def)
  show ?thesis using a b by blast
qed

theorem verifyOutput_iff_witness:
  "fulfillVerification example_hash (example_env 88400 0 None) example_attested 101
     ''Proof-of-Stake is...'' 373 ''proof'' = Inr example_verified
   \<and> verifyOutput example_hash (registry example_verified) 101 ''Proof-of-Stake is...''
   \<and> \<not> verifyOutput example_hash (registry example_verified) 101 ''Proof-of-Stake is not...''
   \<and> \<not> verifyOutput example_hash (registry example_attested) 101 ''Proof-of-Stake is...''"
proof -
  note t = verifyOutput_iff [of example_hash "registry example_attested" 101
      "''Proof-of-Stake is...''" "example_env 88400 0 None" example_attested 373 "''proof''"
      example_verified]
  have p: "status (requests (registry example_attested) 101) = Pending"
    by (simp add: library_defs relayer_defs registry_defs example_defs Let_def)
  show ?thesis
    using t example_fulfill p by (simp add: calculateOutputHash_def example_hash_def)
qed

subsection \<open>Marking a request failed\<close>

text \<open>
  C10. \<open>markVerificationFailed\<close> performs no expiry check. Called with the oracle role,
  it fails with "Request not found" for an unknown id, with "Request already processed"
  for a request that is not \<open>Pending\<close>, and in no other case: every stored \<open>Pending\<close>
  request is set to \<open>Failed\<close>, also when \<open>isRequestExpired\<close> holds for it at the current
  time. (The counter of failed requests is incremented with a checked addition, so it
  must not be at its maximum; it counts one per transaction.)
\<close>

theorem markVerificationFailed_no_expiry_check:
  assumes "hasRole r ORACLE_ROLE (msgSender r)" and "totalFailed r + 1 < UINT256_LIMIT"
  shows "(requester (requests r rid) = 0 \<longrightarrow>
            markVerificationFailed r rid reason = Inl (Revert ''Request not found''))
       \<and> (requester (requests r rid) \<noteq> 0 \<and> status (requests r rid) \<noteq> Pending \<longrightarrow>
            markVerificationFailed r rid reason = Inl (Revert ''Request already processed''))
       \<and> (requester (requests r rid) \<noteq> 0 \<and> status (requests r rid) = Pending \<longrightarrow>
            markVerificationFailed r rid reason =
              Inr (r\<lparr>requests := (requests r)(rid := (requests r rid)\<lparr>status := Failed\<rparr>),
                     totalFailed := totalFailed r + 1\<rparr>))
       \<and> (requester (requests r rid) \<noteq> 0 \<and> status (requests r rid) = Pending
            \<and> isRequestExpired (timestamp (requests r rid)) now = Inr True \<longrightarrow>
            (\<exists>r'. markVerificationFailed r rid reason = Inr r'
                  \<and> status (requests r' rid) = Failed))
       \<and> ((\<exists>err. markVerificationFailed r rid reason = Inl err) \<longleftrightarrow>
            requester (requests r rid) = 0 \<or> status (requests r rid) \<noteq> Pending)"
  using assms
  by (auto simp: markVerificationFailed_def onlyRole_def Let_def checked_add_def bind_require)

theorem markVerificationFailed_no_expiry_check_witness:
  "hasRole (registry example_attested) ORACLE_ROLE (msgSender (registry example_attested))
   \<and> totalFailed (registry example_attested) + 1 < UINT256_LIMIT
   \<and> requester (requests (registry example_attested) 101) \<noteq> 0
   \<and> status (requests (registry example_attested) 101) = Pending
   \<and> isRequestExpired (timestamp (requests (registry example_attested) 101)) 200000 = Inr True
   \<and> (\<exists>r'. markVerificationFailed (registry example_attested) 101 ''timed out'' = Inr r'
           \<and> status (requests r' 101) = Failed)
   \<and> markVerificationFailed (registry example_attested) 7 ''timed out''
        = Inl (Revert ''Request not found'')"
proof -
  have h1: "hasRole (registry example_attested) ORACLE_ROLE (msgSender (registry example_attested))"
    by (simp add: library_defs relayer_defs registry_defs example_defs Let_def)
  have h2: "totalFailed (registry example_attested) + 1 < UINT256_LIMIT"
    by (simp add: library_defs relayer_defs registry_defs example_defs Let_def)
  have h3: "requester (requests (registry example_attested) 101) \<noteq> 0"
    "status (requests (registry example_attested) 101) = Pending"
    "isRequestExpired (timestamp (requests (registry example_attested) 101)) 200000 = Inr True"
    "requester (requests (registry example_attested) 7) = 0"
    by (simp_all add: library_defs relayer_defs registry_defs example_defs Let_def)
  show ?thesis
    using markVerificationFailed_no_expiry_check [OF h1 h2, where rid = 101 and now = 200000
        and reason = "''timed out''"]
      markVerificationFailed_no_expiry_check [OF h1 h2, where rid = 7 and now = 200000
        and reason = "''timed out''"]
      h1 h2 h3
    by simp
qed

subsection \<open>Pausing\<close>

text \<open>
  C9. While the contract is paused, every call of either \<open>requestVerification\<close> entry
  point (caller-pays, or backend on behalf of a requester) fails with "Contract paused"
  and leaves the state as it was. \<open>fulfillVerification\<close> and \<open>markVerificationFailed\<close> do
  not read the pause flag: their outcome with the flag set to any value \<open>b\<close> is their
  outcome without it (the same error, or the same new state, the flag kept), so they
  remain callable on \<open>Pending\<close> requests during a pause.
\<close>

theorem pause_gates_submission_only:
  "(paused (registry w) \<longrightarrow>
      requestVerification K e w p m = Inl (Revert ''Contract paused'')
      \<and> requestVerificationFor K e w rq p m = Inl (Revert ''Contract paused'')
      \<and> step K w (RequestVerification e p m) = w
      \<and> step K w (RequestVerificationFor e rq p m) = w)
   \<and> fulfillVerification K e (w\<lparr>registry := (registry w)\<lparr>paused := b\<rparr>\<rparr>) rid out attId pf
       = map_sum id (\<lambda>w'. w'\<lparr>registry := (registry w')\<lparr>paused := b\<rparr>\<rparr>)
           (fulfillVerification K e w rid out attId pf)
   \<and> markVerificationFailed ((registry w)\<lparr>paused := b\<rparr>) rid reason
       = map_sum id (\<lambda>r'. r'\<lparr>paused := b\<rparr>) (markVerificationFailed (registry w) rid reason)"
  by (simp add: fulfillVerification_pause_flag markVerificationFailed_pause_flag
        requestVerification_def requestVerificationFor_def whenNotPaused_def step_def commit_def)

theorem pause_gates_submission_only_witness:
  "paused (registry example_paused)
   \<and> requestVerification example_hash (example_env 3000 1000000 None) example_paused
        ''Explain PoS'' ''gpt-4'' = Inl (Revert ''Contract paused'')
   \<and> requestVerificationFor example_hash (example_env 3000 1000000 None) example_paused 5
        ''Explain PoS'' ''gpt-4'' = Inl (Revert ''Contract paused'')
   \<and> (\<exists>w'. fulfillVerification example_hash (example_env 88400 0 None) example_paused 101
        ''Proof-of-Stake is...'' 373 ''proof'' = Inr w'
        \<and> status (requests (registry w') 101) = Verified \<and> paused (registry w'))
   \<and> (\<exists>r'. markVerificationFailed (registry example_paused) 101 ''no answer'' = Inr r'
        \<and> status (requests r' 101) = Failed \<and> paused r')"
proof -
  have p: "paused (registry example_paused)" by (simp add: example_paused_def)
  note t = pause_gates_submission_only [where w = example_paused and K = example_hash
      and e = "example_env 3000 1000000 None" and p = "''Explain PoS''" and m = "''gpt-4''"
      and rq = 5]
  note u = pause_gates_submission_only [where w = example_attested and K = example_hash
      and e = "example_env 88400 0 None" and b = True and rid = 101
      and out = "''Proof-of-Stake is...''" and attId = 373 and pf = "''proof''"
      and reason = "''no answer''"]
  have v: "status (requests (registry example_verified) 101) = Verified"
    using fulfillVerification_Inr(7) [OF example_fulfill] by simp
  have f: "\<exists>w'. fulfillVerification example_hash (example_env 88400 0 None) example_paused 101
        ''Proof-of-Stake is...'' 373 ''proof'' = Inr w'
        \<and> status (requests (registry w') 101) = Verified \<and> paused (registry w')"
    using u v example_fulfill by (simp add: example_paused_def)
  obtain r' where r': "markVerificationFailed (registry example_attested) 101 ''no answer'' = Inr r'"
    "status (requests r' 101) = Failed"
    using example_mark_failed by blast
  have g: "\<exists>r'. markVerificationFailed (registry example_paused) 101 ''no answer'' = Inr r'
        \<and> status (requests r' 101) = Failed \<and> paused r'"
    using u r' by (simp add: example_paused_def)
  show ?thesis
    using p t f g by simp
qed

subsection \<open>Fulfilling an expired request\<close>

text \<open>
  C3, as stated: for every request whose creation time plus 24 hours is strictly in the
  past, \<open>fulfillVerification\<close> fails with "Request expired" whatever the attestation. It
  does not: the request submitted at time 2000 is expired at time 200000, the relayer
  has not reported its attestation, and fulfilling it with the stored attestation id
  fails with "Invalid attestation".
\<close>

theorem fulfill_expired_counterexample:
  "isRequestExpired (timestamp (requests (registry example_submitted) 101)) 200000 = Inr True
   \<and> attestationId (requests (registry example_submitted) 101) = 373
   \<and> fulfillVerification example_hash (example_env 200000 0 None) example_submitted 101
        ''Proof-of-Stake is...'' 373 ''proof'' = Inl (Revert ''Invalid attestation'')"
  by (simp add: library_defs relayer_defs registry_defs example_defs Let_def)

text \<open>
  C3, amended: for every stored \<open>Pending\<close> request whose creation time plus 24 hours is
  strictly in the past, \<open>fulfillVerification\<close> by the oracle role fails; the attestation
  is checked first, so the failure is "Invalid attestation" when the relayer does not
  report the supplied attestation id as valid, "Attestation mismatch" when it is valid
  but is not the stored one, and "Request expired" otherwise.
\<close>

theorem fulfill_expired_after_attestation_checks:
  assumes "hasRole (registry w) ORACLE_ROLE (msgSender (registry w))"
      and "requester (requests (registry w) rid) \<noteq> 0"
      and "status (requests (registry w) rid) = Pending"
      and "isRequestExpired (timestamp (requests (registry w) rid)) (block_timestamp e) = Inr True"
  shows "fulfillVerification K e w rid out attId pf =
           (if \<not> verifyAttestation (relayer w) attId then Inl (Revert ''Invalid attestation'')
            else if attestationId (requests (registry w) rid) \<noteq> attId
              then Inl (Revert ''Attestation mismatch'')
            else Inl (Revert ''Request expired''))"
  using assms
  by (auto simp: fulfill_char Let_def isRequestExpired_def checked_add_def split: if_splits)

theorem fulfill_expired_after_attestation_checks_witness:
  "hasRole (registry example_attested) ORACLE_ROLE (msgSender (registry example_attested))
   \<and> requester (requests (registry example_attested) 101) \<noteq> 0
   \<and> status (requests (registry example_attested) 101) = Pending
   \<and> isRequestExpired (timestamp (requests (registry example_attested) 101))
        (block_timestamp (example_env 200000 0 None)) = Inr True
   \<and> fulfillVerification example_hash (example_env 200000 0 None) example_attested 101
        ''Proof-of-Stake is...'' 373 ''proof'' = Inl (Revert ''Request expired'')
   \<and> fulfillVerification example_hash (example_env 200000 0 None) example_attested 101
        ''Proof-of-Stake is...'' 999 ''proof'' = Inl (Revert ''Invalid attestation'')"
proof -
  have h: "hasRole (registry example_attested) ORACLE_ROLE (msgSender (registry example_attested))"
    "requester (requests (registry example_attested) 101) \<noteq> 0"
    "status (requests (registry example_attested) 101) = Pending"
    "isRequestExpired (timestamp (requests (registry example_attested) 101))
        (block_timestamp (example_env 200000 0 None)) = Inr True"
    by (simp_all add: library_defs relayer_defs registry_defs example_defs Let_def)
  have v: "verifyAttestation (relayer example_attested) 373"
    "\<not> verifyAttestation (relayer example_attested) 999"
    "attestationId (requests (registry example_attested) 101) = 373"
    by (simp_all add: library_defs relayer_defs registry_defs example_defs Let_def)
  show ?thesis
    using fulfill_expired_after_attestation_checks [OF h, of example_hash "''Proof-of-Stake is...''" 373 "''proof''"]
      fulfill_expired_after_attestation_checks [OF h, of example_hash "''Proof-of-Stake is...''" 999 "''proof''"]
      h v
    by simp
qed

subsection \<open>The rate limit\<close>

text \<open>
  C6. The rate-limit check passes if and only if the current time is at least the time
  of the requester's last request plus 60 seconds. Consequently, when a submission has
  been accepted, a second submission for the same requester less than 60 seconds after
  it is never accepted: it fails, with "Rate limit exceeded" when it is well-formed and
  pays the required fee, and the state (the requester's counters included) stays as
  the first submission left it. This holds for both entry points.
\<close>

theorem rate_limit_one_per_window:
  "(now < UINT256_LIMIT \<longrightarrow>
      (checkRateLimit lastT now = Inr True \<longleftrightarrow> lastT + RATE_LIMIT_WINDOW \<le> now))
   \<and> RATE_LIMIT_WINDOW = 60
   \<and> (requestVerificationFor K e1 w rq p1 m1 = Inr (rid, w1)
        \<and> block_timestamp e2 < block_timestamp e1 + RATE_LIMIT_WINDOW \<longrightarrow>
          (\<exists>err. requestVerificationFor K e2 w1 rq p2 m2 = Inl err)
          \<and> step K w1 (RequestVerificationFor e2 rq p2 m2) = w1
          \<and> (block_timestamp e1 + RATE_LIMIT_WINDOW < UINT256_LIMIT
               \<and> validateVerificationInput p2 m2 = Inr ()
               \<and> calculateDynamicFee e2 (registry w1) = Inr fee \<and> fee \<le> msg_value e2 \<longrightarrow>
               requestVerificationFor K e2 w1 rq p2 m2 = Inl (Revert ''Rate limit exceeded'')))
   \<and> (requestVerification K e1 w p1 m1 = Inr (rid, w1)
        \<and> block_timestamp e2 < block_timestamp e1 + RATE_LIMIT_WINDOW \<longrightarrow>
          (\<exists>err. requestVerification K e2 w1 p2 m2 = Inl err)
          \<and> step K w1 (RequestVerification e2 p2 m2) = w1
          \<and> (block_timestamp e1 + RATE_LIMIT_WINDOW < UINT256_LIMIT
               \<and> validateVerificationInput p2 m2 = Inr ()
               \<and> calculateDynamicFee e2 (registry w1) = Inr fee \<and> fee \<le> msg_value e2 \<longrightarrow>
               requestVerification K e2 w1 p2 m2 = Inl (Revert ''Rate limit exceeded'')))"
proof -
  have a: "now < UINT256_LIMIT \<longrightarrow>
      (checkRateLimit lastT now = Inr True \<longleftrightarrow> lastT + RATE_LIMIT_WINDOW \<le> now)"
    by (auto simp: checkRateLimit_def checked_add_def)
  have b: "(\<exists>err. requestVerificationFor K e2 w1 rq p2 m2 = Inl err)
          \<and> step K w1 (RequestVerificationFor e2 rq p2 m2) = w1
          \<and> (block_timestamp e1 + RATE_LIMIT_WINDOW < UINT256_LIMIT
               \<and> validateVerificationInput p2 m2 = Inr ()
               \<and> calculateDynamicFee e2 (registry w1) = Inr fee \<and> fee \<le> msg_value e2 \<longrightarrow>
               requestVerificationFor K e2 w1 rq p2 m2 = Inl (Revert ''Rate limit exceeded''))"
    if ok: "requestVerificationFor K e1 w rq p1 m1 = Inr (rid, w1)"
      and near: "block_timestamp e2 < block_timestamp e1 + RATE_LIMIT_WINDOW"
  proof -
    note g = requestVerificationFor_Inr [OF ok]
    note f = requestVerification_body_Inr [OF g(5)]
    have near': "block_timestamp e2 < lastRequestTime (registry w1) rq + RATE_LIMIT_WINDOW"
      using near f(11) by simp
    obtain err where err: "requestVerification_body K e2 w1 rq p2 m2 = Inl err"
      using body_within_window [OF near'] by blast
    obtain err' where err': "requestVerificationFor K e2 w1 rq p2 m2 = Inl err'"
      using entry_fails_if_body_fails(1) [OF err] by blast
    have st: "step K w1 (RequestVerificationFor e2 rq p2 m2) = w1"
      using err' by (simp add: step_def commit_def)
    have pre: "\<not> paused (registry w1)" "reentrancy_status (registry w1) \<noteq> ENTERED"
      "hasRole (registry w1) ORACLE_ROLE (msgSender (registry w1))"
      using g f by (simp_all add: hasRole_def msgSender_def NOT_ENTERED_def ENTERED_def)
    have lim: "requestVerificationFor K e2 w1 rq p2 m2 = Inl (Revert ''Rate limit exceeded'')"
      if "block_timestamp e1 + RATE_LIMIT_WINDOW < UINT256_LIMIT"
        "validateVerificationInput p2 m2 = Inr ()"
        "calculateDynamicFee e2 (registry w1) = Inr fee" "fee \<le> msg_value e2"
      using body_rate_limit_error [OF near' _ that(2,3,4), of K] that(1) f(11) pre g(4)
      by (simp add: requestVerificationFor_def whenNotPaused_def nonReentrant_def onlyRole_def)
    show ?thesis using err' st lim by blast
  qed
  have c: "(\<exists>err. requestVerification K e2 w1 p2 m2 = Inl err)
          \<and> step K w1 (RequestVerification e2 p2 m2) = w1
          \<and> (block_timestamp e1 + RATE_LIMIT_WINDOW < UINT256_LIMIT
               \<and> validateVerificationInput p2 m2 = Inr ()
               \<and> calculateDynamicFee e2 (registry w1) = Inr fee \<and> fee \<le> msg_value e2 \<longrightarrow>
               requestVerification K e2 w1 p2 m2 = Inl (Revert ''Rate limit exceeded''))"
    if ok: "requestVerification K e1 w p1 m1 = Inr (rid, w1)"
      and near: "block_timestamp e2 < block_timestamp e1 + RATE_LIMIT_WINDOW"
  proof -
    note g = requestVerification_Inr [OF ok]
    note f = requestVerification_body_Inr [OF g(3)]
    have same: "msgSender (registry w1) = msgSender (registry w)"
      using f by (simp add: msgSender_def)
    have near': "block_timestamp e2
                  < lastRequestTime (registry w1) (msgSender (registry w1)) + RATE_LIMIT_WINDOW"
      using near f(11) same by simp
    obtain err where err: "requestVerification_body K e2 w1 (msgSender (registry w1)) p2 m2 = Inl err"
      using body_within_window [OF near'] by blast
    obtain err' where err': "requestVerification K e2 w1 p2 m2 = Inl err'"
      using entry_fails_if_body_fails(2) [OF err] by blast
    have st: "step K w1 (RequestVerification e2 p2 m2) = w1"
      using err' by (simp add: step_def commit_def)
    have pre: "\<not> paused (registry w1)" "reentrancy_status (registry w1) \<noteq> ENTERED"
      using g f by (simp_all add: NOT_ENTERED_def ENTERED_def)
    have lim: "requestVerification K e2 w1 p2 m2 = Inl (Revert ''Rate limit exceeded'')"
      if "block_timestamp e1 + RATE_LIMIT_WINDOW < UINT256_LIMIT"
        "validateVerificationInput p2 m2 = Inr ()"
        "calculateDynamicFee e2 (registry w1) = Inr fee" "fee \<le> msg_value e2"
      using body_rate_limit_error [OF near' _ that(2,3,4), of K] that(1) f(11) pre same
      by (simp add: requestVerification_def whenNotPaused_def nonReentrant_def)
    show ?thesis using err' st lim by blast
  qed
  show ?thesis
    using a b c by (simp add: RATE_LIMIT_WINDOW_def)
qed

theorem rate_limit_one_per_window_witness:
  "requestVerificationFor example_hash (example_env 2000 1000000 None) example_world 5
     ''Explain PoS'' ''gpt-4'' = Inr (101, example_submitted)
   \<and> block_timestamp (example_env 2030 1000000 None)
        < block_timestamp (example_env 2000 1000000 None) + RATE_LIMIT_WINDOW
   \<and> requestVerificationFor example_hash (example_env 2030 1000000 None) example_submitted 5
        ''Again'' ''gpt-4'' = Inl (Revert ''Rate limit exceeded'')
   \<and> step example_hash example_submitted
        (RequestVerificationFor (example_env 2030 1000000 None) 5 ''Again'' ''gpt-4'')
       = example_submitted
   \<and> checkRateLimit 2000 2059 = Inr False
   \<and> checkRateLimit 2000 2060 = Inr True
   \<and> requestVerification example_hash (example_env 2000 1000000 None) example_world
        ''Explain PoS'' ''gpt-4'' = Inr (101, example_caller_submitted)
   \<and> requestVerification example_hash (example_env 2030 1000000 None) example_caller_submitted
        ''Again'' ''gpt-4'' = Inl (Revert ''Rate limit exceeded'')
   \<and> step example_hash example_caller_submitted
        (RequestVerification (example_env 2030 1000000 None) ''Again'' ''gpt-4'')
       = example_caller_submitted"
proof -
  have h: "block_timestamp (example_env 2030 1000000 None)
        < block_timestamp (example_env 2000 1000000 None) + RATE_LIMIT_WINDOW"
    "block_timestamp (example_env 2000 1000000 None) + RATE_LIMIT_WINDOW < UINT256_LIMIT"
    "(1000000::nat) \<le> msg_value (example_env 2030 1000000 None)"
    by (simp_all add: example_env_def RATE_LIMIT_WINDOW_def UINT256_LIMIT_def)
  have c: "checkRateLimit 2000 2059 = Inr False" "(2060::nat) < UINT256_LIMIT"
    by (simp_all add: library_defs)
  note t = rate_limit_one_per_window [where K = example_hash
      and ?e1.0 = "example_env 2000 1000000 None" and w = example_world and rq = 5
      and ?p1.0 = "''Explain PoS''" and ?m1.0 = "''gpt-4''" and rid = 101
      and ?w1.0 = example_submitted and ?e2.0 = "example_env 2030 1000000 None"
      and ?p2.0 = "''Again''" and ?m2.0 = "''gpt-4''" and fee = 1000000
      and now = 2060 and lastT = 2000]
  have backend: "requestVerificationFor example_hash (example_env 2030 1000000 None)
        example_submitted 5 ''Again'' ''gpt-4'' = Inl (Revert ''Rate limit exceeded'')
   \<and> step example_hash example_submitted
        (RequestVerificationFor (example_env 2030 1000000 None) 5 ''Again'' ''gpt-4'')
       = example_submitted
   \<and> checkRateLimit 2000 2060 = Inr True"
    using t example_submit h c example_submitted_fee
    by (simp add: RATE_LIMIT_WINDOW_def)
  note u = rate_limit_one_per_window [where K = example_hash
      and ?e1.0 = "example_env 2000 1000000 None" and w = example_world
      and ?p1.0 = "''Explain PoS''" and ?m1.0 = "''gpt-4''" and rid = 101
      and ?w1.0 = example_caller_submitted and ?e2.0 = "example_env 2030 1000000 None"
      and ?p2.0 = "''Again''" and ?m2.0 = "''gpt-4''" and fee = 1000000,
      THEN conjunct2, THEN conjunct2, THEN conjunct2, THEN mp,
      OF conjI, OF example_caller_submit h(1)]
  have caller: "requestVerification example_hash (example_env 2030 1000000 None)
        example_caller_submitted ''Again'' ''gpt-4'' = Inl (Revert ''Rate limit exceeded'')
   \<and> step example_hash example_caller_submitted
        (RequestVerification (example_env 2030 1000000 None) ''Again'' ''gpt-4'')
       = example_caller_submitted"
    using u h example_submitted_fee(1) example_caller_submitted_fee by simp
  show ?thesis
    using backend caller example_submit example_caller_submit h(1) c(1) by simp
qed

subsection \<open>The fee of a submission\<close>

text \<open>
  C2, as stated: every fee strictly below the minimum bound or strictly above the
  maximum bound is refused at submission and no request is created. It is not: under a
  fresh price of 150 USD the required fee is 666666 units, a submission paying 700000
  (below the minimum bound) is accepted, and so is one paying \<open>2 \<cdot> 10\<^sup>1\<^sup>8\<close> (above the
  maximum bound); each creates the request.
\<close>

theorem submit_fee_bounds_counterexample:
  "msg_value (example_priced_env 700000) < MIN_VERIFICATION_FEE
   \<and> requestVerificationFor example_hash (example_priced_env 700000) example_world 5
        ''Explain PoS'' ''gpt-4'' = Inr (101, example_low_fee)
   \<and> requester (requests (registry example_low_fee) 101) = 5
   \<and> MAX_VERIFICATION_FEE < msg_value (example_priced_env 2000000000000000000)
   \<and> requestVerificationFor example_hash (example_priced_env 2000000000000000000)
        example_world 5 ''Explain PoS'' ''gpt-4'' = Inr (101, example_high_fee)
   \<and> requester (requests (registry example_high_fee) 101) = 5"
proof -
  have a: "msg_value (example_priced_env 700000) < MIN_VERIFICATION_FEE"
    "MAX_VERIFICATION_FEE < msg_value (example_priced_env 2000000000000000000)"
    by (simp_all add: example_priced_env_def example_env_def MIN_VERIFICATION_FEE_def
          MAX_VERIFICATION_FEE_def)
  note l = requestVerification_body_Inr(13) [OF requestVerificationFor_Inr(5) [OF example_low_fee_submit]]
  note h = requestVerification_body_Inr(13) [OF requestVerificationFor_Inr(5) [OF example_high_fee_submit]]
  show ?thesis
    using a l h example_low_fee_submit example_high_fee_submit by simp
qed

text \<open>
  C2, amended: for every fee strictly below the required fee (the fee computed from the
  price feed, or the static fee when the feed is stale or its query fails) a submission
  fails, with "Insufficient fee" when it is well-formed, and no request is created: the
  state is unchanged. No upper bound applies to the fee of a submission: a submission
  that is accepted is accepted with every larger fee, which it records as paid. The bounds
  (\<open>validateFee\<close>: minimum \<open>10\<^sup>1\<^sup>5\<close>, maximum \<open>10\<^sup>1\<^sup>8\<close>) guard the setting of the static
  fee, which fails with "Invalid fee amount" outside them.
\<close>

theorem submit_fee_floor:
  "(calculateDynamicFee e (registry w) = Inr requiredFee \<and> msg_value e < requiredFee \<longrightarrow>
      (\<exists>err. requestVerification K e w p m = Inl err)
      \<and> (\<exists>err. requestVerificationFor K e w rq p m = Inl err)
      \<and> step K w (RequestVerification e p m) = w
      \<and> step K w (RequestVerificationFor e rq p m) = w
      \<and> (\<not> paused (registry w) \<and> reentrancy_status (registry w) \<noteq> ENTERED
           \<and> validateVerificationInput p m = Inr () \<longrightarrow>
           requestVerification K e w p m = Inl (Revert ''Insufficient fee'')
           \<and> (hasRole (registry w) ORACLE_ROLE (msgSender (registry w)) \<and> rq \<noteq> 0 \<longrightarrow>
                requestVerificationFor K e w rq p m = Inl (Revert ''Insufficient fee''))))
   \<and> (validateFee fee = Inr () \<longleftrightarrow> MIN_VERIFICATION_FEE \<le> fee \<and> fee \<le> MAX_VERIFICATION_FEE)
   \<and> (hasRole r FEE_MANAGER_ROLE (msgSender r)
        \<and> (fee < MIN_VERIFICATION_FEE \<or> MAX_VERIFICATION_FEE < fee) \<longrightarrow>
        setVerificationFee r fee = Inl (Revert ''Invalid fee amount''))
   \<and> (requestVerification K e w p m = Inr (rid, w') \<and> msg_value e \<le> v \<longrightarrow>
        (\<exists>w''. requestVerification K (e\<lparr>msg_value := v\<rparr>) w p m = Inr (rid, w'')
               \<and> feePaid (requests (registry w'') rid) = v))
   \<and> (requestVerificationFor K e w rq p m = Inr (rid, w') \<and> msg_value e \<le> v \<longrightarrow>
        (\<exists>w''. requestVerificationFor K (e\<lparr>msg_value := v\<rparr>) w rq p m = Inr (rid, w'')
               \<and> feePaid (requests (registry w'') rid) = v))"
proof -
  have a: "(\<exists>err. requestVerification K e w p m = Inl err)
      \<and> (\<exists>err. requestVerificationFor K e w rq p m = Inl err)
      \<and> step K w (RequestVerification e p m) = w
      \<and> step K w (RequestVerificationFor e rq p m) = w
      \<and> (\<not> paused (registry w) \<and> reentrancy_status (registry w) \<noteq> ENTERED
           \<and> validateVerificationInput p m = Inr () \<longrightarrow>
           requestVerification K e w p m = Inl (Revert ''Insufficient fee'')
           \<and> (hasRole (registry w) ORACLE_ROLE (msgSender (registry w)) \<and> rq \<noteq> 0 \<longrightarrow>
                requestVerificationFor K e w rq p m = Inl (Revert ''Insufficient fee'')))"
    if c: "calculateDynamicFee e (registry w) = Inr requiredFee" and l: "msg_value e < requiredFee"
  proof -
    have nb: "requestVerification_body K e w x p m \<noteq> Inr y" for x y
      using requestVerification_body_passed(2) [of K e w x p m "fst y" "snd y"] c l by auto
    have n1: "\<exists>err. requestVerification K e w p m = Inl err"
    proof (cases "requestVerification K e w p m")
      case (Inr y)
      then show ?thesis
        using requestVerification_Inr(3) [of K e w p m "fst y" "snd y"] nb by simp
    qed simp
    have n2: "\<exists>err. requestVerificationFor K e w rq p m = Inl err"
    proof (cases "requestVerificationFor K e w rq p m")
      case (Inr y)
      then show ?thesis
        using requestVerificationFor_Inr(5) [of K e w rq p m "fst y" "snd y"] nb by simp
    qed simp
    have s1: "step K w (RequestVerification e p m) = w"
      using n1 by (auto simp: step_def commit_def)
    have s2: "step K w (RequestVerificationFor e rq p m) = w"
      using n2 by (auto simp: step_def commit_def)
    have e1: "requestVerification K e w p m = Inl (Revert ''Insufficient fee'')"
      if "\<not> paused (registry w)" "reentrancy_status (registry w) \<noteq> ENTERED"
         "validateVerificationInput p m = Inr ()"
      using that body_fee_error [OF that(3) c l, of K]
      by (simp add: requestVerification_def whenNotPaused_def nonReentrant_def)
    have e2: "requestVerificationFor K e w rq p m = Inl (Revert ''Insufficient fee'')"
      if "\<not> paused (registry w)" "reentrancy_status (registry w) \<noteq> ENTERED"
         "validateVerificationInput p m = Inr ()"
         "hasRole (registry w) ORACLE_ROLE (msgSender (registry w))" "rq \<noteq> 0"
      using that body_fee_error [OF that(3) c l, of K]
      by (simp add: requestVerificationFor_def whenNotPaused_def nonReentrant_def onlyRole_def)
    show ?thesis using n1 n2 s1 s2 e1 e2 by blast
  qed
  have b: "validateFee fee = Inr () \<longleftrightarrow> MIN_VERIFICATION_FEE \<le> fee \<and> fee \<le> MAX_VERIFICATION_FEE"
    by (simp add: validateFee_def)
  have d: "hasRole r FEE_MANAGER_ROLE (msgSender r)
        \<and> (fee < MIN_VERIFICATION_FEE \<or> MAX_VERIFICATION_FEE < fee) \<longrightarrow>
        setVerificationFee r fee = Inl (Revert ''Invalid fee amount'')"
    by (auto simp: setVerificationFee_def onlyRole_def validateFee_def)
  have u1: "\<exists>w''. requestVerification K (e\<lparr>msg_value := v\<rparr>) w p m = Inr (rid, w'')
               \<and> feePaid (requests (registry w'') rid) = v"
    if ok: "requestVerification K e w p m = Inr (rid, w')" and le: "msg_value e \<le> v"
  proof -
    note g = requestVerification_Inr [OF ok]
    from body_accepts_larger_fee [OF g(3) le] obtain w'' where
      "requestVerification_body K (e\<lparr>msg_value := v\<rparr>) w (msgSender (registry w)) p m
         = Inr (rid, w'')"
      "feePaid (requests (registry w'') rid) = v"
      by blast
    then show ?thesis
      using g(1,2) by (auto simp: requestVerification_def whenNotPaused_def nonReentrant_def)
  qed
  have u2: "\<exists>w''. requestVerificationFor K (e\<lparr>msg_value := v\<rparr>) w rq p m = Inr (rid, w'')
               \<and> feePaid (requests (registry w'') rid) = v"
    if ok: "requestVerificationFor K e w rq p m = Inr (rid, w')" and le: "msg_value e \<le> v"
  proof -
    note g = requestVerificationFor_Inr [OF ok]
    from body_accepts_larger_fee [OF g(5) le] obtain w'' where
      "requestVerification_body K (e\<lparr>msg_value := v\<rparr>) w rq p m = Inr (rid, w'')"
      "feePaid (requests (registry w'') rid) = v"
      by blast
    then show ?thesis
      using g(1,2,3,4)
      by (auto simp: requestVerificationFor_def whenNotPaused_def nonReentrant_def onlyRole_def)
  qed
  have abd: "(calculateDynamicFee e (registry w) = Inr requiredFee \<and> msg_value e < requiredFee \<longrightarrow>
      (\<exists>err. requestVerification K e w p m = Inl err)
      \<and> (\<exists>err. requestVerificationFor K e w rq p m = Inl err)
      \<and> step K w (RequestVerification e p m) = w
      \<and> step K w (RequestVerificationFor e rq p m) = w
      \<and> (\<not> paused (registry w) \<and> reentrancy_status (registry w) \<noteq> ENTERED
           \<and> validateVerificationInput p m = Inr () \<longrightarrow>
           requestVerification K e w p m = Inl (Revert ''Insufficient fee'')
           \<and> (hasRole (registry w) ORACLE_ROLE (msgSender (registry w)) \<and> rq \<noteq> 0 \<longrightarrow>
                requestVerificationFor K e w rq p m = Inl (Revert ''Insufficient fee''))))
   \<and> (validateFee fee = Inr () \<longleftrightarrow> MIN_VERIFICATION_FEE \<le> fee \<and> fee \<le> MAX_VERIFICATION_FEE)
   \<and> (hasRole r FEE_MANAGER_ROLE (msgSender r)
        \<and> (fee < MIN_VERIFICATION_FEE \<or> MAX_VERIFICATION_FEE < fee) \<longrightarrow>
        setVerificationFee r fee = Inl (Revert ''Invalid fee amount''))"
    using a b d by blast
  show ?thesis
    using abd u1 u2 by (intro conjI impI) (simp_all only:, blast+)
qed

theorem submit_fee_floor_witness:
  "calculateDynamicFee (example_priced_env 600000) (registry example_world) = Inr 666666
   \<and> msg_value (example_priced_env 600000) < 666666
   \<and> requestVerificationFor example_hash (example_priced_env 600000) example_world 5
        ''Explain PoS'' ''gpt-4'' = Inl (Revert ''Insufficient fee'')
   \<and> requestVerification example_hash (example_priced_env 600000) example_world
        ''Explain PoS'' ''gpt-4'' = Inl (Revert ''Insufficient fee'')
   \<and> step example_hash example_world
        (RequestVerificationFor (example_priced_env 600000) 5 ''Explain PoS'' ''gpt-4'')
       = example_world
   \<and> setVerificationFee (registry example_world) 2000000000000000000
       = Inl (Revert ''Invalid fee amount'')
   \<and> requestVerificationFor example_hash (example_priced_env 700000) example_world 5
        ''Explain PoS'' ''gpt-4'' = Inr (101, example_low_fee)
   \<and> msg_value (example_priced_env 700000) \<le> 5000000000000000000
   \<and> (\<exists>w''. requestVerificationFor example_hash
               ((example_priced_env 700000)\<lparr>msg_value := 5000000000000000000\<rparr>)
               example_world 5 ''Explain PoS'' ''gpt-4'' = Inr (101, w'')
             \<and> feePaid (requests (registry w'') 101) = 5000000000000000000)
   \<and> requestVerification example_hash (example_env 2000 1000000 None) example_world
        ''Explain PoS'' ''gpt-4'' = Inr (101, example_caller_submitted)
   \<and> msg_value (example_env 2000 1000000 None) \<le> 5000000000000000000
   \<and> (\<exists>w''. requestVerification example_hash
               ((example_env 2000 1000000 None)\<lparr>msg_value := 5000000000000000000\<rparr>)
               example_world ''Explain PoS'' ''gpt-4'' = Inr (101, w'')
             \<and> feePaid (requests (registry w'') 101) = 5000000000000000000)"
proof -
  have h: "calculateDynamicFee (example_priced_env 600000) (registry example_world) = Inr 666666"
    "msg_value (example_priced_env 600000) < 666666"
    "\<not> paused (registry example_world)" "reentrancy_status (registry example_world) \<noteq> ENTERED"
    "validateVerificationInput ''Explain PoS'' ''gpt-4'' = Inr ()"
    "hasRole (registry example_world) ORACLE_ROLE (msgSender (registry example_world))"
    "hasRole (registry example_world) FEE_MANAGER_ROLE (msgSender (registry example_world))"
    "MAX_VERIFICATION_FEE < 2000000000000000000"
    by (simp_all add: library_defs relayer_defs registry_defs example_defs Let_def
          example_priced_env_def)
  have le: "msg_value (example_priced_env 700000) \<le> 5000000000000000000"
    "msg_value (example_env 2000 1000000 None) \<le> 5000000000000000000"
    by (simp_all add: example_priced_env_def example_env_def)
  note t = submit_fee_floor [where e = "example_priced_env 600000" and w = example_world
      and requiredFee = 666666 and K = example_hash and p = "''Explain PoS''"
      and m = "''gpt-4''" and rq = 5 and r = "registry example_world"
      and fee = 2000000000000000000]
  have low: "calculateDynamicFee (example_priced_env 600000) (registry example_world) = Inr 666666
   \<and> msg_value (example_priced_env 600000) < 666666
   \<and> requestVerificationFor example_hash (example_priced_env 600000) example_world 5
        ''Explain PoS'' ''gpt-4'' = Inl (Revert ''Insufficient fee'')
   \<and> requestVerification example_hash (example_priced_env 600000) example_world
        ''Explain PoS'' ''gpt-4'' = Inl (Revert ''Insufficient fee'')
   \<and> step example_hash example_world
        (RequestVerificationFor (example_priced_env 600000) 5 ''Explain PoS'' ''gpt-4'')
       = example_world
   \<and> setVerificationFee (registry example_world) 2000000000000000000
       = Inl (Revert ''Invalid fee amount'')"
    using t h by simp
  note u = submit_fee_floor [where K = example_hash and w = example_world
      and p = "''Explain PoS''" and m = "''gpt-4''" and rid = 101
      and v = 5000000000000000000]
  note for_backend = u [where e = "example_priced_env 700000" and rq = 5 and w' = example_low_fee,
      THEN conjunct2, THEN conjunct2, THEN conjunct2, THEN conjunct2, THEN mp,
      OF conjI, OF example_low_fee_submit le(1)]
  note for_caller = u [where e = "example_env 2000 1000000 None" and w' = example_caller_submitted,
      THEN conjunct2, THEN conjunct2, THEN conjunct2, THEN conjunct1, THEN mp,
      OF conjI, OF example_caller_submit le(2)]
  show ?thesis
    using low for_backend for_caller example_low_fee_submit example_caller_submit le
    by (intro conjI) (simp_all only:)
qed

subsection \<open>An invalid price\<close>

text \<open>
  C4. The claim: when the price feed is stale, invalid (price not positive) or its query
  fails, the registry charges the static fee and never rejects a well-formed
  submission for that reason. Evaluated at a fresh price of 0: the fee computation
  reverts with \<open>InvalidPriceData\<close>, raised by \<open>calculateSOLFee\<close> in the success block of
  the \<open>try\<close>, where the \<open>catch\<close> does not reach; both entry points reject the submission
  that is accepted when the price query fails.
\<close>

theorem invalid_price_rejects_submission:
  "pyth_getPrice (example_env 2000 1000000 (Some (0, 2000))) = Some (0, 2000)
   \<and> block_timestamp (example_env 2000 1000000 (Some (0, 2000))) = 2000
   \<and> verificationFee (registry example_world) = 1000000
   \<and> msg_value (example_env 2000 1000000 (Some (0, 2000))) = 1000000
   \<and> calculateDynamicFee (example_env 2000 1000000 (Some (0, 2000))) (registry example_world)
       = Inl InvalidPriceData
   \<and> requestVerificationFor example_hash (example_env 2000 1000000 (Some (0, 2000)))
        example_world 5 ''Explain PoS'' ''gpt-4'' = Inl InvalidPriceData
   \<and> requestVerification example_hash (example_env 2000 1000000 (Some (0, 2000)))
        example_world ''Explain PoS'' ''gpt-4'' = Inl InvalidPriceData
   \<and> requestVerificationFor example_hash (example_env 2000 1000000 None)
        example_world 5 ''Explain PoS'' ''gpt-4'' = Inr (101, example_submitted)"
  using example_submit
  by (simp add: library_defs relayer_defs registry_defs example_env_def example_world_def
        example_registry_def Let_def)

subsection \<open>Validity of a certificate\<close>

text \<open>
  C7, as stated: \<open>isVerificationValid\<close> is true if and only if the certificate exists
  and its issuance is within 30 days of the current time. It is not: the certificate
  minted by the fulfilment at time 88400 exists and is less than 30 days old at time
  2594000, yet it is reported invalid, since the window is counted from the request's
  creation at time 2000; and a certificate minted with the \<open>verified\<close> flag unset is
  reported invalid one second after the time in its metadata.
\<close>

theorem certificate_validity_counterexample:
  "fulfillVerification example_hash (example_env 88400 0 None) example_attested 101
     ''Proof-of-Stake is...'' 373 ''proof'' = Inr example_verified
   \<and> block_timestamp (example_env 88400 0 None) = 88400
   \<and> tokenIdCounter (nft example_attested) = 0
   \<and> nft_exists (nft example_verified) 0
   \<and> (2594000::nat) - 88400 < 2592000
   \<and> isVerificationValid (nft example_verified) 2594000 0 = Inr False
   \<and> mintVerificationNFT example_nft 5 example_unverified_metadata
       = Inr (0, example_unverified_nft)
   \<and> nft_exists example_unverified_nft 0
   \<and> (2001::nat) - md_timestamp (tokenMetadata example_unverified_nft 0) < 2592000
   \<and> isVerificationValid example_unverified_nft 2001 0 = Inr False"
proof -
  have a: "tokenIdCounter (nft example_attested) = 0"
    by (simp add: library_defs relayer_defs registry_defs example_defs Let_def)
  from fulfillVerification_Inr(10) [OF example_fulfill] obtain md where
    md: "md_verified md" "md_timestamp md = timestamp (requests (registry example_attested) 101)"
    and m: "mintVerificationNFT (nft example_attested)
              (requester (requests (registry example_attested) 101)) md
            = Inr (tokenIdCounter (nft example_attested), nft example_verified)"
    by blast
  have ts: "timestamp (requests (registry example_attested) 101) = 2000"
    by (simp add: library_defs relayer_defs registry_defs example_defs Let_def)
  note f = mintVerificationNFT_Inr [OF m]
  have b: "nft_exists (nft example_verified) 0"
    "isVerificationValid (nft example_verified) 2594000 0 = Inr False"
    using f(3,4,5) md ts a
    by (simp_all add: nft_exists_def isVerificationValid_def Let_def checked_sub_def)
  note g = mintVerificationNFT_Inr [OF example_unverified_mint]
  have c: "nft_exists example_unverified_nft 0"
    "(2001::nat) - md_timestamp (tokenMetadata example_unverified_nft 0) < 2592000"
    "isVerificationValid example_unverified_nft 2001 0 = Inr False"
    using g(3,4,5)
    by (simp_all add: nft_exists_def isVerificationValid_def Let_def checked_sub_def
          example_unverified_metadata_def)
  show ?thesis
    using example_fulfill example_unverified_mint a b c by (simp add: example_env_def)
qed

text \<open>
  C7, amended: \<open>isVerificationValid\<close> returns true if and only if a certificate with
  that token id exists, its metadata is marked verified, and fewer than 30 days
  (2592000 seconds) have passed since the timestamp in its metadata; for a token id
  that does not exist it returns false. A certificate minted by \<open>fulfillVerification\<close>
  is marked verified and carries the request's creation time as its timestamp.
\<close>

theorem certificate_validity_window:
  "(isVerificationValid n now t = Inr True \<longleftrightarrow>
      nft_exists n t \<and> md_verified (tokenMetadata n t)
      \<and> md_timestamp (tokenMetadata n t) \<le> now
      \<and> now - md_timestamp (tokenMetadata n t) < 2592000)
   \<and> 2592000 = (30::nat) * 86400
   \<and> (\<not> nft_exists n t \<longrightarrow> isVerificationValid n now t = Inr False)
   \<and> (fulfillVerification K e w rid out attId pf = Inr w' \<longrightarrow>
        nft_exists (nft w') (tokenIdCounter (nft w))
        \<and> md_requestId (tokenMetadata (nft w') (tokenIdCounter (nft w))) = rid
        \<and> md_verified (tokenMetadata (nft w') (tokenIdCounter (nft w)))
        \<and> md_timestamp (tokenMetadata (nft w') (tokenIdCounter (nft w)))
            = timestamp (requests (registry w) rid))"
proof -
  have a: "isVerificationValid n now t = Inr True \<longleftrightarrow>
      nft_exists n t \<and> md_verified (tokenMetadata n t)
      \<and> md_timestamp (tokenMetadata n t) \<le> now
      \<and> now - md_timestamp (tokenMetadata n t) < 2592000"
    by (auto simp: isVerificationValid_def Let_def checked_sub_def)
  have b: "\<not> nft_exists n t \<longrightarrow> isVerificationValid n now t = Inr False"
    by (simp add: isVerificationValid_def)
  have c: "nft_exists (nft w') (tokenIdCounter (nft w))
        \<and> md_requestId (tokenMetadata (nft w') (tokenIdCounter (nft w))) = rid
        \<and> md_verified (tokenMetadata (nft w') (tokenIdCounter (nft w)))
        \<and> md_timestamp (tokenMetadata (nft w') (tokenIdCounter (nft w)))
            = timestamp (requests (registry w) rid)"
    if ok: "fulfillVerification K e w rid out attId pf = Inr w'"
  proof -
    from fulfillVerification_Inr(10) [OF ok] obtain md where
      md: "md_requestId md = rid" "md_verified md"
          "md_timestamp md = timestamp (requests (registry w) rid)"
      and m: "mintVerificationNFT (nft w) (requester (requests (registry w) rid)) md
                = Inr (tokenIdCounter (nft w), nft w')"
      by blast
    note f = mintVerificationNFT_Inr [OF m]
    show ?thesis using f(3,4,5) md by (simp add: nft_exists_def)
  qed
  show ?thesis using a b c by simp
qed

theorem certificate_validity_window_witness:
  "fulfillVerification example_hash (example_env 88400 0 None) example_attested 101
     ''Proof-of-Stake is...'' 373 ''proof'' = Inr example_verified
   \<and> timestamp (requests (registry example_attested) 101) = 2000
   \<and> isVerificationValid (nft example_verified) 2593999 0 = Inr True
   \<and> isVerificationValid (nft example_verified) 2594000 0 \<noteq> Inr True
   \<and> isVerificationValid (nft example_verified) 2593999 1 = Inr False"
proof -
  have a: "tokenIdCounter (nft example_attested) = 0"
    "timestamp (requests (registry example_attested) 101) = 2000"
    by (simp_all add: library_defs relayer_defs registry_defs example_defs Let_def)
  have o1: "owners (nft example_attested) 1 = 0"
    by (simp add: library_defs relayer_defs registry_defs example_defs Let_def)
  from fulfillVerification_Inr(10) [OF example_fulfill] obtain md where
    m: "mintVerificationNFT (nft example_attested)
              (requester (requests (registry example_attested) 101)) md
            = Inr (tokenIdCounter (nft example_attested), nft example_verified)"
    by blast
  have x: "\<not> nft_exists (nft example_verified) 1"
    using mintVerificationNFT_Inr(3) [OF m] a o1 by (simp add: nft_exists_def)
  note t = certificate_validity_window [where K = example_hash
      and e = "example_env 88400 0 None" and w = example_attested and rid = 101
      and out = "''Proof-of-Stake is...''" and attId = 373 and pf = "''proof''"
      and w' = example_verified and n = "nft example_verified"]
  note minted = t [where t = 0 and now = 0, THEN conjunct2, THEN conjunct2, THEN conjunct2,
      THEN mp, OF example_fulfill, unfolded a]
  have v1: "isVerificationValid (nft example_verified) 2593999 0 = Inr True"
    using t [where t = 0 and now = 2593999, THEN conjunct1] minted by simp
  have v2: "isVerificationValid (nft example_verified) 2594000 0 \<noteq> Inr True"
    using t [where t = 0 and now = 2594000, THEN conjunct1] minted by simp
  have v3: "isVerificationValid (nft example_verified) 2593999 1 = Inr False"
    using t [where t = 1 and now = 2593999, THEN conjunct2, THEN conjunct2, THEN conjunct1] x
    by simp
  show ?thesis
    using example_fulfill a(2) v1 v2 v3 by simp
qed

subsection \<open>Looking a certificate up without a chain selector\<close>

text \<open>
  C8, as stated: without a selector the router infers the chain from the token id's
  prefix and, when no prefix matches, probes each supported chain in a fixed order and
  returns the first hit. It does not: token \<open>123\<close> has no prefix and both services of
  the repository hold it. After \<open>setDefaultChain('ethereum')\<close> the router returns the
  Ethereum record, where probing Solana first returns the Solana one; as constructed
  (default chain \<open>solana\<close>) it returns the Solana record, where probing Ethereum first
  returns the Ethereum one. So no fixed order of probing gives what the router
  returns: it returns the record of the configured default chain.
\<close>

theorem getNFT_not_fixed_order_counterexample:
  "defaultChain (setDefaultChain MultichainContractService_constructor ''ethereum'') = ''ethereum''
   \<and> spec_infer_chain ''123'' = None
   \<and> map_option nd_chain
        (getNFT (SolanaContractService_getNFT ''2025-01-01T00:00:00.000Z'')
           (EthereumContractService_getNFT ''2025-01-01T00:00:00.000Z'')
           (setDefaultChain MultichainContractService_constructor ''ethereum'') ''123'' None)
       = Some ''ethereum''
   \<and> map_option nd_chain
        (spec_get_certificate (SolanaContractService_getNFT ''2025-01-01T00:00:00.000Z'')
           (EthereumContractService_getNFT ''2025-01-01T00:00:00.000Z'')
           [SolanaContractService_getNFT ''2025-01-01T00:00:00.000Z'',
            EthereumContractService_getNFT ''2025-01-01T00:00:00.000Z''] ''123'')
       = Some ''solana''
   \<and> map_option nd_chain
        (getNFT (SolanaContractService_getNFT ''2025-01-01T00:00:00.000Z'')
           (EthereumContractService_getNFT ''2025-01-01T00:00:00.000Z'')
           MultichainContractService_constructor ''123'' None)
       = Some ''solana''
   \<and> map_option nd_chain
        (spec_get_certificate (SolanaContractService_getNFT ''2025-01-01T00:00:00.000Z'')
           (EthereumContractService_getNFT ''2025-01-01T00:00:00.000Z'')
           [EthereumContractService_getNFT ''2025-01-01T00:00:00.000Z'',
            SolanaContractService_getNFT ''2025-01-01T00:00:00.000Z''] ''123'')
       = Some ''ethereum''"
  by (simp add: getNFT_def detectChainFromTokenId_def startsWith_def Let_def
        spec_get_certificate_def spec_infer_chain_def setDefaultChain_def
        MultichainContractService_constructor_def SolanaContractService_getNFT_def
        EthereumContractService_getNFT_def)

text \<open>
  C8, amended: without a selector the router infers the chain from the token id's
  prefix (\<open>sol_\<close> or \<open>solana_\<close>, then \<open>eth_\<close> or \<open>ethereum_\<close>); when no prefix matches it
  takes the configured default chain (\<open>solana\<close> at construction, whatever
  \<open>setDefaultChain\<close> stored afterwards) instead of probing. It asks the service of the
  chain so chosen, and no other, and returns that service's answer, which is nothing
  when that chain does not hold the token.
\<close>

theorem getNFT_asks_one_chain:
  assumes "defaultChain svc = ''solana'' \<or> defaultChain svc = ''ethereum''"
  shows "(startsWith tokenId ''sol_'' \<or> startsWith tokenId ''solana_'' \<longrightarrow>
            getNFT solanaService ethereumService svc tokenId None = solanaService tokenId)
       \<and> (\<not> (startsWith tokenId ''sol_'' \<or> startsWith tokenId ''solana_'')
            \<and> (startsWith tokenId ''eth_'' \<or> startsWith tokenId ''ethereum_'') \<longrightarrow>
            getNFT solanaService ethereumService svc tokenId None = ethereumService tokenId)
       \<and> (\<not> (startsWith tokenId ''sol_'' \<or> startsWith tokenId ''solana_'')
            \<and> \<not> (startsWith tokenId ''eth_'' \<or> startsWith tokenId ''ethereum_'') \<longrightarrow>
            getNFT solanaService ethereumService svc tokenId None
              = (if defaultChain svc = ''solana'' then solanaService tokenId
                 else ethereumService tokenId))
       \<and> defaultChain MultichainContractService_constructor = ''solana''
       \<and> defaultChain (setDefaultChain svc chain) = chain"
  using assms
  by (auto simp: getNFT_def detectChainFromTokenId_def Let_def setDefaultChain_def
        MultichainContractService_constructor_def)

theorem getNFT_asks_one_chain_witness:
  "(defaultChain (setDefaultChain MultichainContractService_constructor ''ethereum'') = ''solana''
      \<or> defaultChain (setDefaultChain MultichainContractService_constructor ''ethereum'')
          = ''ethereum'')
   \<and> getNFT (SolanaContractService_getNFT ''2025-01-01T00:00:00.000Z'')
        (EthereumContractService_getNFT ''2025-01-01T00:00:00.000Z'')
        (setDefaultChain MultichainContractService_constructor ''ethereum'') ''sol_7'' None
       = SolanaContractService_getNFT ''2025-01-01T00:00:00.000Z'' ''sol_7''
   \<and> getNFT (SolanaContractService_getNFT ''2025-01-01T00:00:00.000Z'')
        (EthereumContractService_getNFT ''2025-01-01T00:00:00.000Z'')
        (setDefaultChain MultichainContractService_constructor ''ethereum'') ''eth_7'' None
       = EthereumContractService_getNFT ''2025-01-01T00:00:00.000Z'' ''eth_7''
   \<and> getNFT (SolanaContractService_getNFT ''2025-01-01T00:00:00.000Z'')
        (EthereumContractService_getNFT ''2025-01-01T00:00:00.000Z'')
        (setDefaultChain MultichainContractService_constructor ''ethereum'') ''123'' None
       = EthereumContractService_getNFT ''2025-01-01T00:00:00.000Z'' ''123''"
proof -
  have h: "defaultChain (setDefaultChain MultichainContractService_constructor ''ethereum'') = ''solana''
      \<or> defaultChain (setDefaultChain MultichainContractService_constructor ''ethereum'')
          = ''ethereum''"
    by (simp add: setDefaultChain_def)
  have d: "defaultChain (setDefaultChain MultichainContractService_constructor ''ethereum'')
             = ''ethereum''"
    by (simp add: setDefaultChain_def)
  note t = getNFT_asks_one_chain [OF h,
      where solanaService = "SolanaContractService_getNFT ''2025-01-01T00:00:00.000Z''"
        and ethereumService = "EthereumContractService_getNFT ''2025-01-01T00:00:00.000Z''"]
  have a: "getNFT (SolanaContractService_getNFT ''2025-01-01T00:00:00.000Z'')
        (EthereumContractService_getNFT ''2025-01-01T00:00:00.000Z'')
        (setDefaultChain MultichainContractService_constructor ''ethereum'') ''sol_7'' None
       = SolanaContractService_getNFT ''2025-01-01T00:00:00.000Z'' ''sol_7''"
    using t [where tokenId = "''sol_7''", THEN conjunct1] by (simp add: startsWith_def)
  have b: "getNFT (SolanaContractService_getNFT ''2025-01-01T00:00:00.000Z'')
        (EthereumContractService_getNFT ''2025-01-01T00:00:00.000Z'')
        (setDefaultChain MultichainContractService_constructor ''ethereum'') ''eth_7'' None
       = EthereumContractService_getNFT ''2025-01-01T00:00:00.000Z'' ''eth_7''"
    using t [where tokenId = "''eth_7''", THEN conjunct2, THEN conjunct1]
    by (simp add: startsWith_def)
  have c: "getNFT (SolanaContractService_getNFT ''2025-01-01T00:00:00.000Z'')
        (EthereumContractService_getNFT ''2025-01-01T00:00:00.000Z'')
        (setDefaultChain MultichainContractService_constructor ''ethereum'') ''123'' None
       = EthereumContractService_getNFT ''2025-01-01T00:00:00.000Z'' ''123''"
    using t [where tokenId = "''123''", THEN conjunct2, THEN conjunct2, THEN conjunct1] d
    by (simp add: startsWith_def)
  show ?thesis using h a b c by simp
qed

end
